theory Spec2Isabelle
  imports Main "HOL-Library.AList"
begin

section \<open>Python values shared by the models\<close>

text \<open>
  The program is a Python service that keeps repositories, analysis jobs and wiki pages
  in DynamoDB tables. Its files and identifiers are named in Japanese; they appear here
  under English names, each with the file and the lines it is taken from: the models
  \<open>api/model/{repository, job, page}\<close>, the base class of the store layer
  \<open>api/repository/DynamoDB base\<close> and the repository manager
  \<open>api/repository/repository repository\<close>.
\<close>

text \<open>
  A Python \<open>str\<close> is modelled as a list of characters, one \<open>char\<close> per code point
  (code points 0 to 255). A naive \<open>datetime\<close> is the number of microseconds between
  1970-01-01T00:00:00 and the wall-clock instant it denotes, so that adding a
  \<open>timedelta\<close> is integer addition; the largest value a \<open>datetime\<close> can hold is
  9999-12-31T23:59:59.999999.
\<close>

type_synonym datetime = int

definition datetime_max :: datetime where
  "datetime_max = 253402300799999999"

definition days_us :: "int \<Rightarrow> int" where
  "days_us n = n * 86400000000"

text \<open>
  The exceptions of the program. \<open>ValidationError\<close> is what a pydantic model raises
  when a field validator rejects a value; \<open>KeyError\<close>, \<open>ValueError\<close>, \<open>TypeError\<close> and
  \<open>OverflowError\<close> are Python's own; \<open>DynamoDB_Exception\<close>,
  \<open>Item_Not_Found_Error\<close> and \<open>Condition_Check_Error\<close> are the three exception classes
  of the store layer (file \<open>api/repository/DynamoDB base\<close>, lines 21 to 38).
\<close>

datatype error =
    ValidationError
  | KeyError
  | ValueError
  | TypeError
  | OverflowError
  | DynamoDB_Exception
  | Item_Not_Found_Error
  | Condition_Check_Error

text \<open>\<open>datetime + timedelta(days=n)\<close>: raises \<open>OverflowError\<close> past the last year.\<close>

definition plus_days :: "datetime \<Rightarrow> int \<Rightarrow> error + datetime" where
  "plus_days d n =
     (if d + days_us n > datetime_max then Inl OverflowError else Inr (d + days_us n))"

text \<open>
  The values that occur in a DynamoDB item and in the free-form dictionaries of the
  models. A \<open>dict\<close> is an association list in insertion order; storing under a key is
  \<^const>\<open>AList.update\<close>, which replaces the value of a key that is present and appends
  a new key otherwise.
\<close>

datatype pyval =
    VNone
  | VBool bool
  | VInt int
  | VStr string
  | VList "pyval list"
  | VDict "(string \<times> pyval) list"

type_synonym pydict = "(string \<times> pyval) list"

text \<open>\<open>d.get(k)\<close> with the default \<open>None\<close>.\<close>

definition dict_get :: "pydict \<Rightarrow> string \<Rightarrow> pyval" where
  "dict_get d k = (case map_of d k of None \<Rightarrow> VNone | Some v \<Rightarrow> v)"

text \<open>Python truthiness, as used by \<open>if x:\<close>.\<close>

fun truthy :: "pyval \<Rightarrow> bool" where
  "truthy VNone = False"
| "truthy (VBool b) = b"
| "truthy (VInt n) = (n \<noteq> 0)"
| "truthy (VStr s) = (s \<noteq> [])"
| "truthy (VList xs) = (xs \<noteq> [])"
| "truthy (VDict d) = (d \<noteq> [])"

subsection \<open>String operations\<close>

text \<open>
  \<open>str.lower()\<close> on code points below 256: the ASCII capitals and the Latin-1
  capitals (0xC0 to 0xDE without the multiplication sign 0xD7) move up by 32.
\<close>

definition lower_char :: "char \<Rightarrow> char" where
  "lower_char c =
     (let n = (of_char c :: nat)
      in if (65 \<le> n \<and> n \<le> 90) \<or> (192 \<le> n \<and> n \<le> 222 \<and> n \<noteq> 215)
         then char_of (n + 32) else c)"

definition lower :: "string \<Rightarrow> string" where
  "lower s = map lower_char s"

fun startswith :: "string \<Rightarrow> string \<Rightarrow> bool" where
  "startswith s [] = True"
| "startswith [] (p # ps) = False"
| "startswith (x # xs) (p # ps) = (x = p \<and> startswith xs ps)"

definition endswith :: "string \<Rightarrow> string \<Rightarrow> bool" where
  "endswith s suf = startswith (rev s) (rev suf)"

text \<open>\<open>sub in s\<close> for strings.\<close>

fun contains :: "string \<Rightarrow> string \<Rightarrow> bool" where
  "contains [] sub = (sub = [])"
| "contains (x # xs) sub = (startswith (x # xs) sub \<or> contains xs sub)"

text \<open>\<open>s.split(c)\<close> for a one-character separator: never the empty list.\<close>

fun split_on :: "char \<Rightarrow> string \<Rightarrow> string list" where
  "split_on c [] = [[]]"
| "split_on c (x # xs) =
     (if x = c then [] # split_on c xs
      else (case split_on c xs of [] \<Rightarrow> [[x]] | y # ys \<Rightarrow> (x # y) # ys))"

section \<open>The page model: classification of a source path\<close>

text \<open>File \<open>api/model/page\<close>, the enumeration of page types (lines 14 to 20).\<close>

datatype page_type = README | CODE | DIRECTORY | API | GUIDE

text \<open>
  The function that infers the page type from the source path (lines 205 to 220): an
  \<open>if\<close>/\<open>elif\<close> chain on the lower-cased path. \<open>endswith\<close> with a tuple is true when
  one of the suffixes matches; the directory test is
  \<open>'/' in p and not p.split('/')[-1]\<close>.
\<close>

definition code_extensions :: "string list" where
  "code_extensions = [''.py'', ''.js'', ''.ts'', ''.java'', ''.cpp'', ''.c'', ''.go'', ''.rs'']"

definition infer_type_from_source_path :: "string \<Rightarrow> page_type" where
  "infer_type_from_source_path source_path =
     (let p = lower source_path
      in if contains p ''readme'' then README
         else if list_ex (endswith p) code_extensions then CODE
         else if contains p ''api'' \<or> contains p ''swagger'' \<or> contains p ''openapi'' then API
         else if contains p ''doc'' \<or> contains p ''guide'' \<or> contains p ''tutorial'' then GUIDE
         else if CHR ''/'' \<in> set p \<and> \<not> truthy (VStr (last (split_on (CHR ''/'') p))) then DIRECTORY
         else CODE)"

text \<open>
  The classification as the specification words it, rule by rule, to be compared with
  the function above: a path "ends in a path separator" when its last character is the
  separator.
\<close>

definition ends_in_separator :: "string \<Rightarrow> bool" where
  "ends_in_separator p = (p \<noteq> [] \<and> last p = CHR ''/'')"

definition infer_type_spec :: "string \<Rightarrow> page_type" where
  "infer_type_spec source_path =
     (let p = lower source_path
      in if contains p ''readme'' then README
         else if endswith p ''.py'' \<or> endswith p ''.js'' \<or> endswith p ''.ts''
               \<or> endswith p ''.java'' \<or> endswith p ''.cpp'' \<or> endswith p ''.c''
               \<or> endswith p ''.go'' \<or> endswith p ''.rs'' then CODE
         else if contains p ''api'' \<or> contains p ''swagger'' \<or> contains p ''openapi'' then API
         else if contains p ''doc'' \<or> contains p ''guide'' \<or> contains p ''tutorial'' then GUIDE
         else if ends_in_separator p then DIRECTORY
         else CODE)"

section \<open>The job model\<close>

text \<open>
  File \<open>api/model/job\<close>. The three enumerations (lines 14 to 35) derive from \<open>str\<close>: a
  member is the string of its value, and a field of enumeration type accepts exactly the
  strings that are the value of a member.
\<close>

datatype job_type = PARSE_FULL | PARSE_INCREMENTAL | WEBHOOK_PROCESS | CLEANUP

datatype job_status = PENDING | RUNNING | COMPLETED | JOB_FAILED | CANCELLED

datatype job_priority = HIGH | NORMAL | LOW

fun job_type_value :: "job_type \<Rightarrow> string" where
  "job_type_value PARSE_FULL = ''PARSE_FULL''"
| "job_type_value PARSE_INCREMENTAL = ''PARSE_INCREMENTAL''"
| "job_type_value WEBHOOK_PROCESS = ''WEBHOOK_PROCESS''"
| "job_type_value CLEANUP = ''CLEANUP''"

fun job_status_value :: "job_status \<Rightarrow> string" where
  "job_status_value PENDING = ''PENDING''"
| "job_status_value RUNNING = ''RUNNING''"
| "job_status_value COMPLETED = ''COMPLETED''"
| "job_status_value JOB_FAILED = ''FAILED''"
| "job_status_value CANCELLED = ''CANCELLED''"

fun job_priority_value :: "job_priority \<Rightarrow> string" where
  "job_priority_value HIGH = ''HIGH''"
| "job_priority_value NORMAL = ''NORMAL''"
| "job_priority_value LOW = ''LOW''"

text \<open>Looking a member up by value: the first member, in declaration order, with that value.\<close>

definition enum_of_value :: "('a \<Rightarrow> string) \<Rightarrow> 'a list \<Rightarrow> string \<Rightarrow> 'a option" where
  "enum_of_value val members s = find (\<lambda>m. val m = s) members"

definition job_type_of_value :: "string \<Rightarrow> job_type option" where
  "job_type_of_value = enum_of_value job_type_value [PARSE_FULL, PARSE_INCREMENTAL, WEBHOOK_PROCESS, CLEANUP]"

definition job_status_of_value :: "string \<Rightarrow> job_status option" where
  "job_status_of_value = enum_of_value job_status_value [PENDING, RUNNING, COMPLETED, JOB_FAILED, CANCELLED]"

definition job_priority_of_value :: "string \<Rightarrow> job_priority option" where
  "job_priority_of_value = enum_of_value job_priority_value [HIGH, NORMAL, LOW]"

text \<open>The job (lines 38 to 61), one field of the record per field of the class.\<close>

record job =
  j_job_id :: string
  j_repo_id :: string
  j_type :: job_type
  j_status :: job_status
  j_priority :: job_priority
  j_started_at :: "datetime option"
  j_completed_at :: "datetime option"
  j_created_at :: datetime
  j_updated_at :: datetime
  j_ttl :: "int option"
  j_executor :: "string option"
  j_error_message :: "string option"
  j_progress :: int
  j_processed_files :: int
  j_total_files :: "int option"
  j_input_params :: "pydict option"
  j_output_result :: "pydict option"
  j_metadata :: "pydict option"

text \<open>
  The keyword arguments of the constructor. An argument that is left out is \<open>None\<close>
  here and takes the default of its field; the three dictionary fields are optional
  with an empty dictionary as the default, so that leaving one out (\<open>None\<close>) and passing
  Python's \<open>None\<close> (\<open>Some None\<close>) differ.
\<close>

record job_kwargs =
  kw_job_id :: string
  kw_repo_id :: string
  kw_type :: string
  kw_status :: "string option"
  kw_priority :: "string option"
  kw_started_at :: "datetime option"
  kw_completed_at :: "datetime option"
  kw_created_at :: "datetime option"
  kw_updated_at :: "datetime option"
  kw_ttl :: "int option"
  kw_executor :: "string option"
  kw_error_message :: "string option"
  kw_progress :: "int option"
  kw_processed_files :: "int option"
  kw_total_files :: "int option"
  kw_input_params :: "pydict option option"
  kw_output_result :: "pydict option option"
  kw_metadata :: "pydict option option"

text \<open>The validator of the progress field (lines 63 to 68).\<close>

definition validate_progress :: "int \<Rightarrow> error + int" where
  "validate_progress v = (if v < 0 \<or> v > 100 then Inl ValidationError else Inr v)"

text \<open>
  The validator of the TTL field (lines 70 to 77), which runs before the field's own
  validation and also when no value is given. \<open>ts\<close> is \<open>int(d.timestamp())\<close>, the
  whole epoch seconds of a datetime under the time zone of the process.
\<close>

definition auto_ttl :: "(datetime \<Rightarrow> int) \<Rightarrow> int option \<Rightarrow> datetime \<Rightarrow> error + int" where
  "auto_ttl ts v created =
     (case v of
        None \<Rightarrow> (case plus_days created 30 of Inl e \<Rightarrow> Inl e | Inr ttl_time \<Rightarrow> Inr (ts ttl_time))
      | Some t \<Rightarrow> Inr t)"

definition dict_default :: "pydict option option \<Rightarrow> pydict option" where
  "dict_default v = (case v of None \<Rightarrow> Some [] | Some d \<Rightarrow> d)"

text \<open>
  Constructing a job: the fields are validated in the order of their declaration.
  \<open>now_c\<close> and \<open>now_u\<close> are the two readings of the clock that the default factories
  of the creation and update times take.
\<close>

definition job_init :: "(datetime \<Rightarrow> int) \<Rightarrow> datetime \<Rightarrow> datetime \<Rightarrow> job_kwargs \<Rightarrow> error + job" where
  "job_init ts now_c now_u kw =
     (case job_type_of_value (kw_type kw) of
        None \<Rightarrow> Inl ValidationError
      | Some ty \<Rightarrow>
     (case (case kw_status kw of None \<Rightarrow> Some PENDING | Some s \<Rightarrow> job_status_of_value s) of
        None \<Rightarrow> Inl ValidationError
      | Some st \<Rightarrow>
     (case (case kw_priority kw of None \<Rightarrow> Some NORMAL | Some s \<Rightarrow> job_priority_of_value s) of
        None \<Rightarrow> Inl ValidationError
      | Some pr \<Rightarrow>
     (let created = (case kw_created_at kw of None \<Rightarrow> now_c | Some d \<Rightarrow> d);
          updated = (case kw_updated_at kw of None \<Rightarrow> now_u | Some d \<Rightarrow> d)
      in (case auto_ttl ts (kw_ttl kw) created of
            Inl e \<Rightarrow> Inl e
          | Inr ttl \<Rightarrow>
         (case validate_progress (case kw_progress kw of None \<Rightarrow> 0 | Some p \<Rightarrow> p) of
            Inl e \<Rightarrow> Inl e
          | Inr p \<Rightarrow>
              Inr \<lparr> j_job_id = kw_job_id kw, j_repo_id = kw_repo_id kw, j_type = ty,
                    j_status = st, j_priority = pr,
                    j_started_at = kw_started_at kw, j_completed_at = kw_completed_at kw,
                    j_created_at = created, j_updated_at = updated, j_ttl = Some ttl,
                    j_executor = kw_executor kw, j_error_message = kw_error_message kw,
                    j_progress = p,
                    j_processed_files = (case kw_processed_files kw of None \<Rightarrow> 0 | Some n \<Rightarrow> n),
                    j_total_files = kw_total_files kw,
                    j_input_params = dict_default (kw_input_params kw),
                    j_output_result = dict_default (kw_output_result kw),
                    j_metadata = dict_default (kw_metadata kw) \<rparr>))))))"

text \<open>
  The request model of a partial job update (lines 201 to 215): every field is
  optional, and the validator of the progress field lets \<open>None\<close> through.
\<close>

record job_update_request =
  u_status :: "job_status option"
  u_progress :: "int option"
  u_error_message :: "string option"
  u_processed_files :: "int option"
  u_total_files :: "int option"
  u_output_result :: "pydict option"

record job_update_kwargs =
  ukw_status :: "string option"
  ukw_progress :: "int option"
  ukw_error_message :: "string option"
  ukw_processed_files :: "int option"
  ukw_total_files :: "int option"
  ukw_output_result :: "pydict option"

definition validate_progress_opt :: "int option \<Rightarrow> error + int option" where
  "validate_progress_opt v =
     (if v \<noteq> None \<and> (the v < 0 \<or> the v > 100) then Inl ValidationError else Inr v)"

definition job_update_request_init :: "job_update_kwargs \<Rightarrow> error + job_update_request" where
  "job_update_request_init kw =
     (case (case ukw_status kw of None \<Rightarrow> Some None | Some s \<Rightarrow> map_option Some (job_status_of_value s)) of
        None \<Rightarrow> Inl ValidationError
      | Some st \<Rightarrow>
          (case validate_progress_opt (ukw_progress kw) of
             Inl e \<Rightarrow> Inl e
           | Inr p \<Rightarrow>
               Inr \<lparr> u_status = st, u_progress = p,
                     u_error_message = ukw_error_message kw,
                     u_processed_files = ukw_processed_files kw,
                     u_total_files = ukw_total_files kw,
                     u_output_result = ukw_output_result kw \<rparr>))"

text \<open>
  The text of a datetime is produced by \<open>datetime.isoformat\<close> and read back by
  \<open>datetime.fromisoformat\<close>, both of Python's library. They are parameters of the
  model: \<open>isoformat\<close> is the printer, \<open>fromisoformat\<close> the parser, which returns \<open>None\<close>
  where Python raises \<open>ValueError\<close>.
\<close>

record pyenv =
  isoformat :: "datetime \<Rightarrow> string"
  fromisoformat :: "string \<Rightarrow> datetime option"

text \<open>
  \<open>datetime.fromisoformat(x)\<close> on a value of an item: \<open>TypeError\<close> when the value is not
  a string, \<open>ValueError\<close> when the string is not the text of a datetime.
\<close>

definition parse_datetime :: "pyenv \<Rightarrow> pyval \<Rightarrow> error + datetime" where
  "parse_datetime env v =
     (case v of
        VStr s \<Rightarrow> (case fromisoformat env s of None \<Rightarrow> Inl ValueError | Some d \<Rightarrow> Inr d)
      | _ \<Rightarrow> Inl TypeError)"

text \<open>
  The expression \<open>datetime.fromisoformat(item[k]) if item.get(k) else None\<close> of the three
  \<open>from item\<close> constructors.
\<close>

definition parse_datetime_opt :: "pyenv \<Rightarrow> pydict \<Rightarrow> string \<Rightarrow> error + datetime option" where
  "parse_datetime_opt env item k =
     (if truthy (dict_get item k)
      then (case parse_datetime env (dict_get item k) of Inl e \<Rightarrow> Inl e | Inr d \<Rightarrow> Inr (Some d))
      else Inr None)"

text \<open>
  What a field of a pydantic model accepts from a value of an item. The values are taken
  at the types the conversion to an item writes them with: a value of another type is
  rejected with \<open>ValidationError\<close> (pydantic's conversions between types are not
  modelled), and \<open>None\<close> is accepted by the optional fields only.
\<close>

definition field_str :: "pyval \<Rightarrow> error + string" where
  "field_str v = (case v of VStr s \<Rightarrow> Inr s | _ \<Rightarrow> Inl ValidationError)"

definition field_int :: "pyval \<Rightarrow> error + int" where
  "field_int v = (case v of VInt n \<Rightarrow> Inr n | _ \<Rightarrow> Inl ValidationError)"

definition field_bool :: "pyval \<Rightarrow> error + bool" where
  "field_bool v = (case v of VBool b \<Rightarrow> Inr b | _ \<Rightarrow> Inl ValidationError)"

definition field_opt_str :: "pyval \<Rightarrow> error + string option" where
  "field_opt_str v = (case v of VNone \<Rightarrow> Inr None | VStr s \<Rightarrow> Inr (Some s) | _ \<Rightarrow> Inl ValidationError)"

definition field_opt_int :: "pyval \<Rightarrow> error + int option" where
  "field_opt_int v = (case v of VNone \<Rightarrow> Inr None | VInt n \<Rightarrow> Inr (Some n) | _ \<Rightarrow> Inl ValidationError)"

definition field_opt_dict :: "pyval \<Rightarrow> error + pydict option" where
  "field_opt_dict v = (case v of VNone \<Rightarrow> Inr None | VDict d \<Rightarrow> Inr (Some d) | _ \<Rightarrow> Inl ValidationError)"

text \<open>\<open>item[k]\<close> raises \<open>KeyError\<close> for a missing key; \<open>item.get(k, default)\<close> does not.\<close>

definition dict_item :: "pydict \<Rightarrow> string \<Rightarrow> error + pyval" where
  "dict_item d k = (case map_of d k of None \<Rightarrow> Inl KeyError | Some v \<Rightarrow> Inr v)"

definition dict_get_default :: "pydict \<Rightarrow> string \<Rightarrow> pyval \<Rightarrow> pyval" where
  "dict_get_default d k dflt = (case map_of d k of None \<Rightarrow> dflt | Some v \<Rightarrow> v)"

text \<open>Sequencing of computations that may raise.\<close>

definition bind :: "error + 'a \<Rightarrow> ('a \<Rightarrow> error + 'b) \<Rightarrow> error + 'b" where
  "bind m f = (case m of Inl e \<Rightarrow> Inl e | Inr x \<Rightarrow> f x)"

text \<open>Calling an enumeration class on a value: \<open>ValueError\<close> when no member has it.\<close>

definition enum_call :: "(string \<Rightarrow> 'a option) \<Rightarrow> pyval \<Rightarrow> error + 'a" where
  "enum_call of_value v =
     (case v of
        VStr s \<Rightarrow> (case of_value s of None \<Rightarrow> Inl ValueError | Some m \<Rightarrow> Inr m)
      | _ \<Rightarrow> Inl ValueError)"

definition opt_to_val :: "('a \<Rightarrow> pyval) \<Rightarrow> 'a option \<Rightarrow> pyval" where
  "opt_to_val f v = (case v of None \<Rightarrow> VNone | Some x \<Rightarrow> f x)"

text \<open>The statement \<open>if c: d[k] = v\<close>.\<close>

definition set_if :: "bool \<Rightarrow> string \<Rightarrow> pyval \<Rightarrow> pydict \<Rightarrow> pydict" where
  "set_if c k v d = (if c then AList.update k v d else d)"

text \<open>The text of an optional datetime, for a datetime that is present.\<close>

definition iso_val :: "pyenv \<Rightarrow> datetime option \<Rightarrow> pyval" where
  "iso_val env v = opt_to_val (\<lambda>d. VStr (isoformat env d)) v"

text \<open>
  The conversion of a job to a DynamoDB item (lines 79 to 108): thirteen keys are
  always written, five more only when the field is truthy; a datetime is truthy.
\<close>

definition job_to_item :: "pyenv \<Rightarrow> job \<Rightarrow> pydict" where
  "job_to_item env j =
     set_if (truthy (opt_to_val VInt (j_total_files j))) ''total_files''
       (opt_to_val VInt (j_total_files j))
    (set_if (truthy (opt_to_val VStr (j_error_message j))) ''error_message''
       (opt_to_val VStr (j_error_message j))
    (set_if (truthy (opt_to_val VStr (j_executor j))) ''executor''
       (opt_to_val VStr (j_executor j))
    (set_if (j_completed_at j \<noteq> None) ''completed_at'' (iso_val env (j_completed_at j))
    (set_if (j_started_at j \<noteq> None) ''started_at'' (iso_val env (j_started_at j))
       [(''job_id'', VStr (j_job_id j)),
        (''repo_id'', VStr (j_repo_id j)),
        (''type'', VStr (job_type_value (j_type j))),
        (''status'', VStr (job_status_value (j_status j))),
        (''priority'', VStr (job_priority_value (j_priority j))),
        (''created_at'', VStr (isoformat env (j_created_at j))),
        (''updated_at'', VStr (isoformat env (j_updated_at j))),
        (''ttl'', opt_to_val VInt (j_ttl j)),
        (''progress'', VInt (j_progress j)),
        (''processed_files'', VInt (j_processed_files j)),
        (''input_params'', opt_to_val VDict (j_input_params j)),
        (''output_result'', opt_to_val VDict (j_output_result j)),
        (''metadata'', opt_to_val VDict (j_metadata j))]))))"

text \<open>
  The construction of a job from an item (lines 110 to 132). The arguments are
  evaluated in the order they are written, before the constructor runs; the enumeration
  fields arrive as members, which are the strings of their values. Where more than one
  field is at fault the constructor reports them together, and the model gives the
  exception of the first check that fails.
\<close>

definition job_from_item ::
  "pyenv \<Rightarrow> (datetime \<Rightarrow> int) \<Rightarrow> datetime \<Rightarrow> datetime \<Rightarrow> pydict \<Rightarrow> error + job" where
  "job_from_item env ts now_c now_u item =
     bind (dict_item item ''job_id'') (\<lambda>v_job_id.
     bind (dict_item item ''repo_id'') (\<lambda>v_repo_id.
     bind (bind (dict_item item ''type'') (enum_call job_type_of_value)) (\<lambda>ty.
     bind (bind (dict_item item ''status'') (enum_call job_status_of_value)) (\<lambda>st.
     bind (enum_call job_priority_of_value (dict_get_default item ''priority'' (VStr ''NORMAL''))) (\<lambda>pr.
     bind (parse_datetime_opt env item ''started_at'') (\<lambda>started.
     bind (parse_datetime_opt env item ''completed_at'') (\<lambda>completed.
     bind (bind (dict_item item ''created_at'') (parse_datetime env)) (\<lambda>created.
     bind (bind (dict_item item ''updated_at'') (parse_datetime env)) (\<lambda>updated.
     bind (field_str v_job_id) (\<lambda>job_id.
     bind (field_str v_repo_id) (\<lambda>repo_id.
     bind (field_opt_int (dict_get item ''ttl'')) (\<lambda>ttl.
     bind (field_opt_str (dict_get item ''executor'')) (\<lambda>executor.
     bind (field_opt_str (dict_get item ''error_message'')) (\<lambda>error_message.
     bind (field_int (dict_get_default item ''progress'' (VInt 0))) (\<lambda>progress.
     bind (field_int (dict_get_default item ''processed_files'' (VInt 0))) (\<lambda>processed.
     bind (field_opt_int (dict_get item ''total_files'')) (\<lambda>total.
     bind (field_opt_dict (dict_get_default item ''input_params'' (VDict []))) (\<lambda>input_params.
     bind (field_opt_dict (dict_get_default item ''output_result'' (VDict []))) (\<lambda>output_result.
     bind (field_opt_dict (dict_get_default item ''metadata'' (VDict []))) (\<lambda>metadata.
       job_init ts now_c now_u
         \<lparr> kw_job_id = job_id, kw_repo_id = repo_id, kw_type = job_type_value ty,
           kw_status = Some (job_status_value st), kw_priority = Some (job_priority_value pr),
           kw_started_at = started, kw_completed_at = completed,
           kw_created_at = Some created, kw_updated_at = Some updated, kw_ttl = ttl,
           kw_executor = executor, kw_error_message = error_message,
           kw_progress = Some progress, kw_processed_files = Some processed,
           kw_total_files = total, kw_input_params = Some input_params,
           kw_output_result = Some output_result, kw_metadata = Some metadata \<rparr>
     ))))))))))))))))))))"

section \<open>The repository model\<close>

text \<open>File \<open>api/model/repository\<close>, the enumerations (lines 15 to 25).\<close>

datatype repo_provider = GITHUB | CODECOMMIT

datatype repo_status = READY | PARSING | FAILED

fun repo_provider_value :: "repo_provider \<Rightarrow> string" where
  "repo_provider_value GITHUB = ''github''"
| "repo_provider_value CODECOMMIT = ''codecommit''"

fun repo_status_value :: "repo_status \<Rightarrow> string" where
  "repo_status_value READY = ''READY''"
| "repo_status_value PARSING = ''PARSING''"
| "repo_status_value FAILED = ''FAILED''"

definition repo_provider_of_value :: "string \<Rightarrow> repo_provider option" where
  "repo_provider_of_value = enum_of_value repo_provider_value [GITHUB, CODECOMMIT]"

definition repo_status_of_value :: "string \<Rightarrow> repo_status option" where
  "repo_status_of_value = enum_of_value repo_status_value [READY, PARSING, FAILED]"

text \<open>The repository (lines 34 to 51).\<close>

record repository =
  r_repo_id :: string
  r_provider :: repo_provider
  r_remote_url :: string
  r_display_name :: string
  r_default_branch :: string
  r_status :: repo_status
  r_last_scan_sha :: "string option"
  r_last_scan_at :: "datetime option"
  r_created_at :: datetime
  r_updated_at :: datetime
  r_deleted :: bool
  r_metadata :: "pydict option"

text \<open>
  The URL patterns of the validator use three constructs only: a literal text, a class
  \<open>[^c]+\<close> (one or more characters other than \<open>c\<close>), and the anchors. A pattern is the
  list of its pieces between \<open>^\<close> and \<open>$\<close>; \<open>re.match\<close> tries every way to cut the text,
  and \<open>$\<close> matches at the end of the text or before a line feed that ends it.
\<close>

datatype piece = Lit string | Not_Plus char

fun re_match :: "piece list \<Rightarrow> string \<Rightarrow> bool" where
  "re_match [] s = (s = [] \<or> s = [CHR 0x0A])"
| "re_match (Lit l # ps) s = (startswith s l \<and> re_match ps (drop (length l) s))"
| "re_match (Not_Plus c # ps) [] = False"
| "re_match (Not_Plus c # ps) (x # xs) =
     (x \<noteq> c \<and> (re_match ps xs \<or> re_match (Not_Plus c # ps) xs))"

definition github_patterns :: "piece list list" where
  "github_patterns =
     [[Lit ''https://github.com/'', Not_Plus (CHR ''/''), Lit ''/'', Not_Plus (CHR ''/''), Lit ''.git''],
      [Lit ''https://github.com/'', Not_Plus (CHR ''/''), Lit ''/'', Not_Plus (CHR ''/'')],
      [Lit ''git@github.com:'', Not_Plus (CHR ''/''), Lit ''/'', Not_Plus (CHR ''/''), Lit ''.git'']]"

definition codecommit_patterns :: "piece list list" where
  "codecommit_patterns =
     [[Lit ''codecommit://'', Not_Plus (CHR ''/'')],
      [Lit ''codecommit::'', Not_Plus (CHR '':''), Lit ''://'', Not_Plus (CHR ''/'')],
      [Lit ''https://git-codecommit.'', Not_Plus (CHR ''.''), Lit ''.amazonaws.com/v1/repos/'',
       Not_Plus (CHR ''/'')]]"

text \<open>The validator of the remote URL (lines 53 to 78).\<close>

definition validate_url :: "repo_provider \<Rightarrow> string \<Rightarrow> error + string" where
  "validate_url provider v =
     (if provider = GITHUB then
        (if \<not> list_ex (\<lambda>pattern. re_match pattern v) github_patterns
         then Inl ValidationError else Inr v)
      else if provider = CODECOMMIT then
        (if \<not> list_ex (\<lambda>pattern. re_match pattern v) codecommit_patterns
         then Inl ValidationError else Inr v)
      else Inr v)"

text \<open>
  \<open>str.strip()\<close>: the characters below 256 for which \<open>isspace\<close> holds are removed from
  both ends.
\<close>

definition is_space :: "char \<Rightarrow> bool" where
  "is_space c =
     (let n = (of_char c :: nat)
      in (9 \<le> n \<and> n \<le> 13) \<or> (28 \<le> n \<and> n \<le> 32) \<or> n = 133 \<or> n = 160)"

definition strip :: "string \<Rightarrow> string" where
  "strip s = rev (dropWhile is_space (rev (dropWhile is_space s)))"

text \<open>The validator of the display name (lines 80 to 87).\<close>

definition validate_display_name :: "string \<Rightarrow> error + string" where
  "validate_display_name v =
     (if v = [] \<or> length (strip v) = 0 then Inl ValidationError
      else if length v > 100 then Inl ValidationError
      else Inr (strip v))"

text \<open>
  Constructing a repository from the values of its fields: the two validators run, and
  the display name is stored stripped.
\<close>

definition repository_init :: "repository \<Rightarrow> error + repository" where
  "repository_init raw =
     (case validate_url (r_provider raw) (r_remote_url raw) of
        Inl e \<Rightarrow> Inl ValidationError
      | Inr url \<Rightarrow>
          (case validate_display_name (r_display_name raw) of
             Inl e \<Rightarrow> Inl ValidationError
           | Inr name \<Rightarrow> Inr (raw\<lparr>r_remote_url := url, r_display_name := name\<rparr>)))"

text \<open>The conversion of a repository to a DynamoDB item (lines 89 to 109).\<close>

definition repo_to_item :: "pyenv \<Rightarrow> repository \<Rightarrow> pydict" where
  "repo_to_item env r =
     set_if (r_last_scan_at r \<noteq> None) ''last_scan_at'' (iso_val env (r_last_scan_at r))
    (set_if (truthy (opt_to_val VStr (r_last_scan_sha r))) ''last_scan_sha''
       (opt_to_val VStr (r_last_scan_sha r))
       [(''repo_id'', VStr (r_repo_id r)),
        (''provider'', VStr (repo_provider_value (r_provider r))),
        (''remote_url'', VStr (r_remote_url r)),
        (''display_name'', VStr (r_display_name r)),
        (''default_branch'', VStr (r_default_branch r)),
        (''status'', VStr (repo_status_value (r_status r))),
        (''created_at'', VStr (isoformat env (r_created_at r))),
        (''updated_at'', VStr (isoformat env (r_updated_at r))),
        (''deleted'', VBool (r_deleted r)),
        (''metadata'', opt_to_val VDict (r_metadata r))])"

text \<open>The construction of a repository from an item (lines 111 to 127).\<close>

definition repo_from_item :: "pyenv \<Rightarrow> pydict \<Rightarrow> error + repository" where
  "repo_from_item env item =
     bind (dict_item item ''repo_id'') (\<lambda>v_repo_id.
     bind (bind (dict_item item ''provider'') (enum_call repo_provider_of_value)) (\<lambda>provider.
     bind (dict_item item ''remote_url'') (\<lambda>v_remote_url.
     bind (dict_item item ''display_name'') (\<lambda>v_display_name.
     bind (enum_call repo_status_of_value (dict_get_default item ''status'' (VStr ''READY''))) (\<lambda>st.
     bind (parse_datetime_opt env item ''last_scan_at'') (\<lambda>last_scan_at.
     bind (bind (dict_item item ''created_at'') (parse_datetime env)) (\<lambda>created.
     bind (bind (dict_item item ''updated_at'') (parse_datetime env)) (\<lambda>updated.
     bind (field_str v_repo_id) (\<lambda>repo_id.
     bind (field_str v_remote_url) (\<lambda>remote_url.
     bind (field_str v_display_name) (\<lambda>display_name.
     bind (field_str (dict_get_default item ''default_branch'' (VStr ''main''))) (\<lambda>default_branch.
     bind (field_opt_str (dict_get item ''last_scan_sha'')) (\<lambda>last_scan_sha.
     bind (field_bool (dict_get_default item ''deleted'' (VBool False))) (\<lambda>deleted.
     bind (field_opt_dict (dict_get_default item ''metadata'' (VDict []))) (\<lambda>metadata.
       repository_init
         \<lparr> r_repo_id = repo_id, r_provider = provider, r_remote_url = remote_url,
           r_display_name = display_name, r_default_branch = default_branch, r_status = st,
           r_last_scan_sha = last_scan_sha, r_last_scan_at = last_scan_at,
           r_created_at = created, r_updated_at = updated, r_deleted = deleted,
           r_metadata = metadata \<rparr>
     )))))))))))))))"

section \<open>The store\<close>

subsection \<open>The table behind the store\<close>

text \<open>
  The store layer calls a DynamoDB table through the AWS SDK; the table is not part of
  the program, and this is its contract as far as the program uses it. A table with the
  partition key \<open>repo_id\<close> is the list of its items in the order a scan reads them; the
  order is the table's own (it follows a hash of the key), so that where a new key goes
  is a function of the key that the program does not control. The table is reachable:
  a call fails only on its condition expression or on a malformed request. A request is
  malformed, among others, when its key is not valid: the value of a partition key is a
  string that is not empty and has at most 2048 bytes in UTF-8.
\<close>

record table =
  rows :: "pydict list"
  placement :: "string \<Rightarrow> nat"

datatype client_error = ConditionalCheckFailedException | ValidationException

definition has_key :: "string \<Rightarrow> pydict \<Rightarrow> bool" where
  "has_key k item = (map_of item ''repo_id'' = Some (VStr k))"

definition get_item :: "table \<Rightarrow> string \<Rightarrow> pydict option" where
  "get_item t k = find (has_key k) (rows t)"

definition utf8_length :: "string \<Rightarrow> nat" where
  "utf8_length s = sum_list (map (\<lambda>c. if (of_char c :: nat) < 128 then 1 else 2) s)"

definition key_ok :: "string \<Rightarrow> bool" where
  "key_ok k = (k \<noteq> [] \<and> utf8_length k \<le> 2048)"

text \<open>\<open>GetItem\<close>: the item of a valid key, if there is one.\<close>

definition ddb_get_item :: "table \<Rightarrow> string \<Rightarrow> client_error + pydict option" where
  "ddb_get_item t k = (if key_ok k then Inr (get_item t k) else Inl ValidationException)"

text \<open>
  Condition expressions, as syntax trees. \<open>Attr_Equals a p\<close> is \<open>a = :p\<close>, the comparison
  of an attribute with a value of the request; it is false for an attribute that is
  absent. A condition on a key that has no item is evaluated on an item without
  attributes.
\<close>

datatype cond =
    Attribute_Exists string
  | Attribute_Not_Exists string
  | Attr_Equals string string
  | Cond_And cond cond
  | Cond_Or cond cond

fun eval_cond :: "pydict \<Rightarrow> pydict \<Rightarrow> cond \<Rightarrow> bool" where
  "eval_cond vals item (Attribute_Exists a) = (map_of item a \<noteq> None)"
| "eval_cond vals item (Attribute_Not_Exists a) = (map_of item a = None)"
| "eval_cond vals item (Attr_Equals a p) = (map_of item a \<noteq> None \<and> map_of item a = map_of vals p)"
| "eval_cond vals item (Cond_And c d) = (eval_cond vals item c \<and> eval_cond vals item d)"
| "eval_cond vals item (Cond_Or c d) = (eval_cond vals item c \<or> eval_cond vals item d)"

definition check_cond :: "pydict \<Rightarrow> pydict option \<Rightarrow> cond option \<Rightarrow> bool" where
  "check_cond vals current c =
     (case c of
        None \<Rightarrow> True
      | Some c' \<Rightarrow> eval_cond vals (case current of None \<Rightarrow> [] | Some item \<Rightarrow> item) c')"

definition replace_item :: "string \<Rightarrow> pydict \<Rightarrow> pydict list \<Rightarrow> pydict list" where
  "replace_item k item xs = map (\<lambda>old. if has_key k old then item else old) xs"

definition insert_item :: "nat \<Rightarrow> pydict \<Rightarrow> pydict list \<Rightarrow> pydict list" where
  "insert_item n item xs = take n xs @ [item] @ drop n xs"

definition store_item :: "table \<Rightarrow> string \<Rightarrow> pydict \<Rightarrow> table" where
  "store_item t k item =
     (case get_item t k of
        None \<Rightarrow> t\<lparr>rows := insert_item (placement t k) item (rows t)\<rparr>
      | Some old \<Rightarrow> t\<lparr>rows := replace_item k item (rows t)\<rparr>)"

text \<open>\<open>PutItem\<close>: the item must carry the key attribute, a string that is a valid key.\<close>

definition ddb_put_item :: "table \<Rightarrow> pydict \<Rightarrow> cond option \<Rightarrow> client_error + table" where
  "ddb_put_item t item c =
     (case map_of item ''repo_id'' of
        Some (VStr k) \<Rightarrow>
          (if \<not> key_ok k then Inl ValidationException
           else if check_cond [] (get_item t k) c then Inr (store_item t k item)
           else Inl ConditionalCheckFailedException)
      | _ \<Rightarrow> Inl ValidationException)"

text \<open>
  \<open>UpdateItem\<close> with an update expression \<open>SET l1 = r1, l2 = r2, ...\<close>, given as the list
  of its pairs. A left side is an attribute name or a placeholder \<open>#n\<close> of the names of
  the request, a right side a placeholder \<open>:v\<close> of its values; a placeholder is the sign
  followed by one or more letters, digits or underscores. The request is malformed when
  the key is not valid, a placeholder is ill-formed or undefined, or a left side is the
  key attribute. The call returns all attributes of the item as updated.
\<close>

definition is_word_char :: "char \<Rightarrow> bool" where
  "is_word_char c =
     (let n = (of_char c :: nat)
      in (48 \<le> n \<and> n \<le> 57) \<or> (65 \<le> n \<and> n \<le> 90) \<or> (97 \<le> n \<and> n \<le> 122) \<or> n = 95)"

definition placeholder_ok :: "char \<Rightarrow> string \<Rightarrow> bool" where
  "placeholder_ok sign p =
     (case p of [] \<Rightarrow> False | c # cs \<Rightarrow> c = sign \<and> cs \<noteq> [] \<and> list_all is_word_char cs)"

definition resolve_name :: "(string \<times> string) list \<Rightarrow> string \<Rightarrow> string option" where
  "resolve_name names l =
     (if startswith l ''#''
      then (if placeholder_ok (CHR ''#'') l then map_of names l else None)
      else Some l)"

definition resolve_value :: "pydict \<Rightarrow> string \<Rightarrow> pyval option" where
  "resolve_value vals r = (if placeholder_ok (CHR '':'') r then map_of vals r else None)"

fun resolve_sets ::
  "(string \<times> string) list \<Rightarrow> pydict \<Rightarrow> (string \<times> string) list \<Rightarrow> pydict option" where
  "resolve_sets names vals [] = Some []"
| "resolve_sets names vals ((l, r) # sets) =
     (case resolve_name names l of
        None \<Rightarrow> None
      | Some a \<Rightarrow>
          (case resolve_value vals r of
             None \<Rightarrow> None
           | Some v \<Rightarrow>
               (if a = ''repo_id'' then None
                else (case resolve_sets names vals sets of
                        None \<Rightarrow> None
                      | Some rest \<Rightarrow> Some ((a, v) # rest)))))"

definition apply_sets :: "pydict \<Rightarrow> pydict \<Rightarrow> pydict" where
  "apply_sets assignments item = fold (\<lambda>(a, v). AList.update a v) assignments item"

definition ddb_update_item ::
  "table \<Rightarrow> string \<Rightarrow> (string \<times> string) list \<Rightarrow> pydict \<Rightarrow> (string \<times> string) list
     \<Rightarrow> cond option \<Rightarrow> client_error + (table \<times> pydict)" where
  "ddb_update_item t k sets vals names c =
     (if \<not> key_ok k then Inl ValidationException
      else
        (case resolve_sets names vals sets of
           None \<Rightarrow> Inl ValidationException
         | Some assignments \<Rightarrow>
             (if check_cond vals (get_item t k) c
              then (let old = (case get_item t k of
                                 None \<Rightarrow> [(''repo_id'', VStr k)]
                               | Some item \<Rightarrow> item);
                        new = apply_sets assignments old
                    in Inr (store_item t k new, new))
              else Inl ConditionalCheckFailedException)))"

text \<open>\<open>DeleteItem\<close>.\<close>

definition ddb_delete_item :: "table \<Rightarrow> string \<Rightarrow> cond option \<Rightarrow> client_error + table" where
  "ddb_delete_item t k c =
     (if \<not> key_ok k then Inl ValidationException
      else if check_cond [] (get_item t k) c
      then Inr (t\<lparr>rows := filter (\<lambda>item. \<not> has_key k item) (rows t)\<rparr>)
      else Inl ConditionalCheckFailedException)"

text \<open>
  \<open>Scan\<close> with a filter expression and a limit. The limit bounds the number of items
  the scan reads, not the number it returns: the filter is applied to the items read,
  and one call returns the matching items among them. A comparison \<open>a <> v\<close> holds for an
  item without the attribute \<open>a\<close>.
\<close>

datatype filter_expr =
    F_Eq string pyval
  | F_Ne string pyval
  | F_And filter_expr filter_expr

fun eval_filter :: "filter_expr \<Rightarrow> pydict \<Rightarrow> bool" where
  "eval_filter (F_Eq a v) item = (map_of item a = Some v)"
| "eval_filter (F_Ne a v) item = (map_of item a \<noteq> Some v)"
| "eval_filter (F_And f g) item = (eval_filter f item \<and> eval_filter g item)"

definition ddb_scan :: "table \<Rightarrow> filter_expr option \<Rightarrow> nat option \<Rightarrow> pydict list" where
  "ddb_scan t f limit =
     (let read = (case limit of None \<Rightarrow> rows t | Some n \<Rightarrow> take n (rows t))
      in (case f of None \<Rightarrow> read | Some f' \<Rightarrow> filter (eval_filter f') read))"

subsection \<open>The base class of the store layer\<close>

text \<open>
  File \<open>api/repository/DynamoDB base\<close>. Each method calls the table and turns a failed
  condition into \<open>Condition_Check_Error\<close> and every other failure of the call into
  \<open>DynamoDB_Exception\<close>.
\<close>

definition translate :: "client_error \<Rightarrow> error" where
  "translate e = (if e = ConditionalCheckFailedException then Condition_Check_Error
                  else DynamoDB_Exception)"

text \<open>
  Get an item (lines 82 to 98): every failure of the call becomes \<open>DynamoDB_Exception\<close>.
\<close>

definition item_get :: "table \<Rightarrow> string \<Rightarrow> error + pydict option" where
  "item_get t k =
     (case ddb_get_item t k of Inl e \<Rightarrow> Inl DynamoDB_Exception | Inr found \<Rightarrow> Inr found)"

text \<open>Save an item (lines 100 to 127).\<close>

definition item_save :: "table \<Rightarrow> pydict \<Rightarrow> cond option \<Rightarrow> error + table" where
  "item_save t item c =
     (case ddb_put_item t item c of Inl e \<Rightarrow> Inl (translate e) | Inr t' \<Rightarrow> Inr t')"

text \<open>Update an item (lines 129 to 169).\<close>

definition item_update ::
  "table \<Rightarrow> string \<Rightarrow> (string \<times> string) list \<Rightarrow> pydict \<Rightarrow> (string \<times> string) list
     \<Rightarrow> cond option \<Rightarrow> error + (table \<times> pydict)" where
  "item_update t k sets vals names c =
     (case ddb_update_item t k sets vals names c of
        Inl e \<Rightarrow> Inl (translate e)
      | Inr res \<Rightarrow> Inr res)"

text \<open>Delete an item (lines 171 to 198).\<close>

definition item_delete :: "table \<Rightarrow> string \<Rightarrow> cond option \<Rightarrow> error + (table \<times> bool)" where
  "item_delete t k c =
     (case ddb_delete_item t k c of
        Inl e \<Rightarrow> Inl (translate e)
      | Inr t' \<Rightarrow> Inr (t', True))"

text \<open>
  Run a scan (lines 243 to 274): the limit is passed on only when it is truthy, and the
  items of the one response are returned.
\<close>

definition scan_exec :: "table \<Rightarrow> filter_expr option \<Rightarrow> nat option \<Rightarrow> error + pydict list" where
  "scan_exec t f limit =
     Inr (ddb_scan t f (case limit of None \<Rightarrow> None | Some n \<Rightarrow> if n \<noteq> 0 then Some n else None))"

subsection \<open>The repository manager\<close>

text \<open>
  File \<open>api/repository/repository repository\<close>. The class body defines most methods
  twice; the second definition of a name replaces the first, so the methods in effect
  are those of lines 417 to 783. The three condition expressions of the class:
  \<open>attribute_not_exists(repo_id)\<close>, \<open>attribute_exists(repo_id)\<close> and
  \<open>attribute_exists(repo_id) AND (attribute_not_exists(deleted) OR deleted = :false)\<close>.
\<close>

definition cond_absent :: cond where
  "cond_absent = Attribute_Not_Exists ''repo_id''"

definition cond_present :: cond where
  "cond_present = Attribute_Exists ''repo_id''"

definition cond_live :: cond where
  "cond_live =
     Cond_And (Attribute_Exists ''repo_id'')
       (Cond_Or (Attribute_Not_Exists ''deleted'') (Attr_Equals ''deleted'' '':false''))"

text \<open>
  Find a repository by URL (lines 679 to 701): a scan for the items with this URL that
  are not deleted, with the limit 1, and the first item returned, if any.
\<close>

definition url_filter :: "string \<Rightarrow> filter_expr" where
  "url_filter url = F_And (F_Eq ''remote_url'' (VStr url)) (F_Ne ''deleted'' (VBool True))"

definition find_repository_by_url :: "pyenv \<Rightarrow> table \<Rightarrow> string \<Rightarrow> error + repository option" where
  "find_repository_by_url env t url =
     (case scan_exec t (Some (url_filter url)) (Some 1) of
        Inl e \<Rightarrow> Inl DynamoDB_Exception
      | Inr items \<Rightarrow>
          (case items of
             [] \<Rightarrow> Inr None
           | item # _ \<Rightarrow>
               (case repo_from_item env item of
                  Inl e \<Rightarrow> Inl DynamoDB_Exception
                | Inr r \<Rightarrow> Inr (Some r))))"

text \<open>
  Create a repository (lines 417 to 470). \<open>new_id\<close> is the identifier that the generator
  returns and \<open>now\<close> the reading of the clock. The result is the table after the call
  and the value returned or the exception raised.
\<close>

definition create_repository ::
  "pyenv \<Rightarrow> string \<Rightarrow> datetime \<Rightarrow> table \<Rightarrow> repo_provider \<Rightarrow> string \<Rightarrow> string \<Rightarrow> string
     \<Rightarrow> table \<times> (error + repository)" where
  "create_repository env new_id now t provider remote_url display_name default_branch =
     (case find_repository_by_url env t remote_url of
        Inl e \<Rightarrow> (t, Inl DynamoDB_Exception)
      | Inr (Some existing) \<Rightarrow> (t, Inl Condition_Check_Error)
      | Inr None \<Rightarrow>
          (case repository_init
                  \<lparr> r_repo_id = new_id, r_provider = provider, r_remote_url = remote_url,
                    r_display_name = display_name, r_default_branch = default_branch,
                    r_status = READY, r_last_scan_sha = None, r_last_scan_at = None,
                    r_created_at = now, r_updated_at = now, r_deleted = False,
                    r_metadata = Some [] \<rparr> of
             Inl e \<Rightarrow> (t, Inl DynamoDB_Exception)
           | Inr new_repo \<Rightarrow>
               (case item_save t (repo_to_item env new_repo) (Some cond_absent) of
                  Inl e \<Rightarrow> (t, Inl (if e = Condition_Check_Error then Condition_Check_Error
                                    else DynamoDB_Exception))
                | Inr t' \<Rightarrow> (t', Inr new_repo))))"

text \<open>
  Get a repository, the definition in effect (lines 472 to 493): \<open>None\<close> is returned for
  an identifier without an item and for an item whose \<open>deleted\<close> attribute is truthy.
\<close>

definition get_repository :: "pyenv \<Rightarrow> table \<Rightarrow> string \<Rightarrow> error + repository option" where
  "get_repository env t repo_id =
     (case item_get t repo_id of
        Inl e \<Rightarrow> Inl DynamoDB_Exception
      | Inr found \<Rightarrow>
          (case found of
             None \<Rightarrow> Inr None
           | Some item \<Rightarrow>
               (if truthy (VDict item) \<and> \<not> truthy (dict_get_default item ''deleted'' (VBool False))
                then (case repo_from_item env item of
                        Inl e \<Rightarrow> Inl DynamoDB_Exception
                      | Inr r \<Rightarrow> Inr (Some r))
                else Inr None)))"


text \<open>
  Update a repository, the definition in effect (lines 541 to 594). The update time is
  stored into the dictionary of changes first; every key \<open>k\<close> of the dictionary then
  gives the assignment \<open>#k = :k\<close>, the name \<open>#k\<close> and the value \<open>:k\<close>; the value \<open>:false\<close> of
  the condition is stored last. A failed condition gives \<open>None\<close>.
\<close>

definition update_request ::
  "pydict \<Rightarrow> (string \<times> string) list \<times> pydict \<times> (string \<times> string) list" where
  "update_request data =
     (let sets = map (\<lambda>(k, v). (CHR ''#'' # k, CHR '':'' # k)) data;
          names = fold (\<lambda>(k, v). AList.update (CHR ''#'' # k) k) data [];
          vals = fold (\<lambda>(k, v). AList.update (CHR '':'' # k) v) data []
      in (sets, AList.update '':false'' (VBool False) vals, names))"

definition update_repository ::
  "pyenv \<Rightarrow> datetime \<Rightarrow> table \<Rightarrow> string \<Rightarrow> pydict \<Rightarrow> table \<times> (error + repository option)" where
  "update_repository env now t repo_id update_data =
     (let data = AList.update ''updated_at'' (VStr (isoformat env now)) update_data;
          (sets, vals, names) = update_request data
      in (case item_update t repo_id sets vals names (Some cond_live) of
            Inl e \<Rightarrow> (if e = Condition_Check_Error then (t, Inr None)
                      else (t, Inl DynamoDB_Exception))
          | Inr (t', updated_item) \<Rightarrow>
              (case repo_from_item env updated_item of
                 Inl e \<Rightarrow> (t', Inl DynamoDB_Exception)
               | Inr r \<Rightarrow> (t', Inr (Some r)))))"

text \<open>
  Update a repository, the first definition (lines 205 to 250), which the second
  replaces: a failed condition raises \<open>Item_Not_Found_Error\<close>.
\<close>

definition update_repository_first ::
  "pyenv \<Rightarrow> datetime \<Rightarrow> table \<Rightarrow> string \<Rightarrow> pydict \<Rightarrow> table \<times> (error + repository)" where
  "update_repository_first env now t repo_id update_data =
     (let data = AList.update ''updated_at'' (VStr (isoformat env now)) update_data;
          (sets, vals, names) = update_request data
      in (case item_update t repo_id sets vals names (Some cond_live) of
            Inl e \<Rightarrow> (if e = Condition_Check_Error then (t, Inl Item_Not_Found_Error)
                      else (t, Inl DynamoDB_Exception))
          | Inr (t', updated_item) \<Rightarrow>
              (case repo_from_item env updated_item of
                 Inl e \<Rightarrow> (t', Inl DynamoDB_Exception)
               | Inr r \<Rightarrow> (t', Inr r))))"

text \<open>
  Delete a repository, the definition in effect (lines 596 to 641): a conditional delete
  of the item when the deletion is physical, the update
  \<open>SET deleted = :true, updated_at = :updated_at\<close> under the condition of a live item
  otherwise. A failed condition gives \<open>False\<close>.
\<close>

definition delete_repository ::
  "pyenv \<Rightarrow> datetime \<Rightarrow> table \<Rightarrow> string \<Rightarrow> bool \<Rightarrow> table \<times> (error + bool)" where
  "delete_repository env now t repo_id physical =
     (if physical then
        (case item_delete t repo_id (Some cond_present) of
           Inl e \<Rightarrow> (if e = Condition_Check_Error then (t, Inr False)
                     else (t, Inl DynamoDB_Exception))
         | Inr (t', deleted) \<Rightarrow> (t', Inr deleted))
      else
        (case item_update t repo_id
                [(''deleted'', '':true''), (''updated_at'', '':updated_at'')]
                [('':true'', VBool True), ('':updated_at'', VStr (isoformat env now)),
                 ('':false'', VBool False)]
                [] (Some cond_live) of
           Inl e \<Rightarrow> (if e = Condition_Check_Error then (t, Inr False)
                     else (t, Inl DynamoDB_Exception))
         | Inr (t', updated_item) \<Rightarrow> (t', Inr True)))"

text \<open>
  Update the status of a repository, the definition in effect (lines 643 to 677): an
  update of the status, and of the last scan when a commit is given; \<open>False\<close> when the
  update returns \<open>None\<close>. \<open>now_scan\<close> is the reading of the clock for the last scan.
\<close>

definition set_status ::
  "pyenv \<Rightarrow> datetime \<Rightarrow> datetime \<Rightarrow> table \<Rightarrow> string \<Rightarrow> repo_status \<Rightarrow> string option
     \<Rightarrow> table \<times> (error + bool)" where
  "set_status env now_scan now t repo_id new_status last_scan_sha =
     (let data0 = [(''status'', VStr (repo_status_value new_status))];
          data = (if truthy (opt_to_val VStr last_scan_sha)
                  then AList.update ''last_scan_at'' (VStr (isoformat env now_scan))
                         (AList.update ''last_scan_sha'' (opt_to_val VStr last_scan_sha) data0)
                  else data0)
      in (case update_repository env now t repo_id data of
            (t', Inl e) \<Rightarrow> (t', Inl DynamoDB_Exception)
          | (t', Inr None) \<Rightarrow> (t', Inr False)
          | (t', Inr (Some r)) \<Rightarrow> (t', Inr True)))"

section \<open>Notions used to state the properties\<close>

text \<open>
  The law of Python's library that the parser reads back what the printer writes, at one
  datetime; the text of a datetime is never empty.
\<close>

definition iso_law :: "pyenv \<Rightarrow> datetime \<Rightarrow> bool" where
  "iso_law env d = (fromisoformat env (isoformat env d) = Some d \<and> isoformat env d \<noteq> [])"

definition iso_law_opt :: "pyenv \<Rightarrow> datetime option \<Rightarrow> bool" where
  "iso_law_opt env v = (case v of None \<Rightarrow> True | Some d \<Rightarrow> iso_law env d)"

text \<open>
  A job as its constructor leaves it: the progress within bounds, the TTL set, and the
  texts of its datetimes readable.
\<close>

definition job_constructed :: "pyenv \<Rightarrow> job \<Rightarrow> bool" where
  "job_constructed env j =
     (0 \<le> j_progress j \<and> j_progress j \<le> 100 \<and> j_ttl j \<noteq> None
      \<and> iso_law env (j_created_at j) \<and> iso_law env (j_updated_at j)
      \<and> iso_law_opt env (j_started_at j) \<and> iso_law_opt env (j_completed_at j))"

text \<open>
  What the conversion to an item and back makes of a job: an empty executor, an empty
  error message and a total of zero files become \<open>None\<close>.
\<close>

definition falsy_to_none :: "('a \<Rightarrow> pyval) \<Rightarrow> 'a option \<Rightarrow> 'a option" where
  "falsy_to_none f v = (if truthy (opt_to_val f v) then v else None)"

definition roundtrip_image :: "job \<Rightarrow> job" where
  "roundtrip_image j =
     j\<lparr> j_executor := falsy_to_none VStr (j_executor j),
        j_error_message := falsy_to_none VStr (j_error_message j),
        j_total_files := falsy_to_none VInt (j_total_files j) \<rparr>"

text \<open>
  An item is live when it exists and its \<open>deleted\<close> attribute is absent or the boolean
  false: the condition under which the manager updates an item.
\<close>

definition is_live :: "table \<Rightarrow> string \<Rightarrow> bool" where
  "is_live t k =
     (case get_item t k of
        None \<Rightarrow> False
      | Some item \<Rightarrow> map_of item ''deleted'' = None \<or> map_of item ''deleted'' = Some (VBool False))"

section \<open>Sample inputs\<close>

text \<open>
  The whole epoch seconds of a datetime when the process runs in UTC: \<open>int\<close> truncates
  towards zero.
\<close>

definition utc_timestamp :: "datetime \<Rightarrow> int" where
  "utc_timestamp d = (if 0 \<le> d then d div 1000000 else - ((- d) div 1000000))"

text \<open>A full parse job created one second after the epoch, every default left in place.\<close>

definition example_job_kwargs :: job_kwargs where
  "example_job_kwargs =
     \<lparr> kw_job_id = ''job-0123456789ab'', kw_repo_id = ''repo-01234567'', kw_type = ''PARSE_FULL'',
       kw_status = None, kw_priority = None, kw_started_at = None, kw_completed_at = None,
       kw_created_at = Some 1000000, kw_updated_at = None, kw_ttl = None, kw_executor = None,
       kw_error_message = None, kw_progress = None, kw_processed_files = None,
       kw_total_files = None, kw_input_params = None, kw_output_result = None,
       kw_metadata = None \<rparr>"

definition example_update_kwargs :: job_update_kwargs where
  "example_update_kwargs =
     \<lparr> ukw_status = Some ''RUNNING'', ukw_progress = None, ukw_error_message = None,
       ukw_processed_files = None, ukw_total_files = None, ukw_output_result = None \<rparr>"

text \<open>
  A printer and a parser of datetimes for the examples: Python's own on the first three
  seconds after the epoch.
\<close>

definition example_isoformat :: "datetime \<Rightarrow> string" where
  "example_isoformat d =
     (if d = 1000000 then ''1970-01-01T00:00:01''
      else if d = 2000000 then ''1970-01-01T00:00:02''
      else ''1970-01-01T00:00:00'')"

definition example_fromisoformat :: "string \<Rightarrow> datetime option" where
  "example_fromisoformat s =
     (if s = ''1970-01-01T00:00:00'' then Some 0
      else if s = ''1970-01-01T00:00:01'' then Some 1000000
      else if s = ''1970-01-01T00:00:02'' then Some 2000000
      else None)"

definition example_env :: pyenv where
  "example_env = \<lparr> isoformat = example_isoformat, fromisoformat = example_fromisoformat \<rparr>"

text \<open>A job with a negative total of files, and one with a total of zero.\<close>

definition example_job_negative_total :: job where
  "example_job_negative_total =
     \<lparr> j_job_id = ''job-0123456789ab'', j_repo_id = ''repo-01234567'', j_type = PARSE_FULL,
       j_status = RUNNING, j_priority = NORMAL, j_started_at = Some 2000000,
       j_completed_at = None, j_created_at = 1000000, j_updated_at = 2000000,
       j_ttl = Some 2592001, j_executor = Some ''worker-1'', j_error_message = None,
       j_progress = 45, j_processed_files = 3, j_total_files = Some (- 1),
       j_input_params = Some [], j_output_result = Some [], j_metadata = Some [] \<rparr>"

definition example_job_zero_total :: job where
  "example_job_zero_total = example_job_negative_total\<lparr>j_total_files := Some 0\<rparr>"

text \<open>
  Tables for the examples: an empty table, and an empty table that places every new key
  after the first item of the scan order.
\<close>

definition place_first :: "string \<Rightarrow> nat" where
  "place_first k = 0"

definition place_second :: "string \<Rightarrow> nat" where
  "place_second k = 1"

definition empty_table :: table where
  "empty_table = \<lparr> rows = [], placement = place_first \<rparr>"

definition empty_table_second :: table where
  "empty_table_second = \<lparr> rows = [], placement = place_second \<rparr>"

text \<open>
  The repository of the scenario of the specification, registered in the empty table one
  second after the epoch, and the table after its logical deletion a second later.
\<close>

definition table_widgets :: table where
  "table_widgets =
     fst (create_repository example_env ''repo-00000001'' 1000000 empty_table GITHUB
            ''https://github.com/acme/widgets'' ''Widgets'' ''main'')"

definition table_widgets_deleted :: table where
  "table_widgets_deleted =
     fst (delete_repository example_env 2000000 table_widgets ''repo-00000001'' False)"

text \<open>
  A table that holds another repository and reads it first in a scan, and the same table
  after the repository of the scenario has been registered in it.
\<close>

definition table_other :: table where
  "table_other =
     fst (create_repository example_env ''repo-00000000'' 0 empty_table_second GITHUB
            ''https://github.com/acme/other'' ''Other'' ''main'')"

definition table_other_widgets :: table where
  "table_other_widgets =
     fst (create_repository example_env ''repo-00000001'' 1000000 table_other GITHUB
            ''https://github.com/acme/widgets'' ''Widgets'' ''main'')"

definition remote_urls :: "table \<Rightarrow> pyval list" where
  "remote_urls t = map (\<lambda>item. dict_get item ''remote_url'') (rows t)"

section \<open>Properties of the page classification\<close>

lemma split_on_not_Nil: "split_on c s \<noteq> []"
  by (induction s) (auto split: list.splits)

lemma split_on_single: "split_on c s = [y] \<Longrightarrow> c \<notin> set s"
  by (induction s arbitrary: y) (auto simp: split_on_not_Nil split: if_splits list.splits)

lemma last_split_on: "last (split_on c s) = [] \<longleftrightarrow> (s = [] \<or> last s = c)"
proof (induction s)
  case Nil
  then show ?case by simp
next
  case (Cons x xs)
  show ?case
  proof (cases "split_on c xs")
    case Nil
    then show ?thesis using split_on_not_Nil [of c xs] by simp
  next
    case (Cons y ys)
    show ?thesis
    proof (cases "ys = []")
      case True
      with Cons have "c \<notin> set xs" using split_on_single by fastforce
      then have "xs \<noteq> [] \<Longrightarrow> last xs \<noteq> c" using last_in_set by metis
      with Cons True Cons.IH show ?thesis by auto
    next
      case False
      with Cons Cons.IH show ?thesis by auto
    qed
  qed
qed

lemma separator_in_path: "ends_in_separator p \<Longrightarrow> CHR ''/'' \<in> set p"
  unfolding ends_in_separator_def by (metis last_in_set)

lemma directory_test:
  "(CHR ''/'' \<in> set p \<and> \<not> truthy (VStr (last (split_on (CHR ''/'') p)))) = ends_in_separator p"
proof (cases "ends_in_separator p")
  case True
  then show ?thesis
    using separator_in_path [of p] by (simp add: last_split_on ends_in_separator_def)
next
  case False
  then show ?thesis by (auto simp: last_split_on ends_in_separator_def)
qed

text \<open>
  Claim C8. For every source path, the function that infers the page type returns what
  the rules of the specification give on the lower-cased path, taken in their order:
  README for a path that contains "readme"; CODE for one that ends with .py, .js, .ts,
  .java, .cpp, .c, .go or .rs; API for one that contains "api", "swagger" or "openapi";
  GUIDE for one that contains "doc", "guide" or "tutorial"; DIRECTORY for one that ends
  in the path separator; CODE otherwise.
\<close>

theorem infer_type_matches_spec:
  "infer_type_from_source_path source_path = infer_type_spec source_path"
  unfolding infer_type_from_source_path_def infer_type_spec_def Let_def directory_test
  by (simp add: code_extensions_def)

theorem infer_type_matches_spec_witness:
  "infer_type_spec ''README.md'' = README \<and> infer_type_spec ''src/Utils/'' = DIRECTORY
   \<and> infer_type_spec ''docs/API.PY'' = CODE"
proof -
  have "infer_type_from_source_path ''README.md'' = README" by code_simp
  moreover have "infer_type_from_source_path ''src/Utils/'' = DIRECTORY" by code_simp
  moreover have "infer_type_from_source_path ''docs/API.PY'' = CODE" by code_simp
  ultimately show ?thesis
    using infer_type_matches_spec [of "''README.md''"]
      infer_type_matches_spec [of "''src/Utils/''"]
      infer_type_matches_spec [of "''docs/API.PY''"] by simp
qed

section \<open>Properties of the job model\<close>

lemma job_type_of_value_iff:
  "job_type_of_value s = Some ty \<longleftrightarrow> job_type_value ty = s"
  by (cases ty) (auto simp: job_type_of_value_def enum_of_value_def)

lemma job_type_value_range:
  "(\<exists>ty. job_type_value ty = s)
   \<longleftrightarrow> s \<in> {''PARSE_FULL'', ''PARSE_INCREMENTAL'', ''WEBHOOK_PROCESS'', ''CLEANUP''}"
proof
  assume "\<exists>ty. job_type_value ty = s"
  then obtain ty where "job_type_value ty = s" ..
  then show "s \<in> {''PARSE_FULL'', ''PARSE_INCREMENTAL'', ''WEBHOOK_PROCESS'', ''CLEANUP''}"
    by (cases ty) auto
next
  assume "s \<in> {''PARSE_FULL'', ''PARSE_INCREMENTAL'', ''WEBHOOK_PROCESS'', ''CLEANUP''}"
  then consider "s = job_type_value PARSE_FULL" | "s = job_type_value PARSE_INCREMENTAL"
    | "s = job_type_value WEBHOOK_PROCESS" | "s = job_type_value CLEANUP" by auto
  then show "\<exists>ty. job_type_value ty = s" by metis
qed

lemma job_init_type:
  assumes "job_init ts nc nu kw = Inr j0"
  shows "job_init ts nc nu (kw\<lparr>kw_type := s\<rparr>) =
           (case job_type_of_value s of
              None \<Rightarrow> Inl ValidationError
            | Some ty \<Rightarrow> Inr (j0\<lparr>j_type := ty\<rparr>))"
  using assms unfolding job_init_def Let_def
  by (auto split: option.splits sum.splits)

lemma example_job: "\<exists>j. job_init utc_timestamp 0 0 example_job_kwargs = Inr j"
  by (simp add: job_init_def example_job_kwargs_def job_type_of_value_def enum_of_value_def
      auto_ttl_def plus_days_def days_us_def datetime_max_def validate_progress_def)

lemma example_update:
  "\<exists>r. job_update_request_init example_update_kwargs = Inr r"
  by (simp add: job_update_request_init_def example_update_kwargs_def job_status_of_value_def
      enum_of_value_def validate_progress_opt_def)

text \<open>
  Claim C7, as the code has it. The values of the job type that the job model accepts
  and stores are exactly PARSE_FULL, PARSE_INCREMENTAL, WEBHOOK_PROCESS and CLEANUP:
  where a job can be constructed at all, replacing its type by a string \<open>s\<close> gives, when
  \<open>s\<close> is one of the four, the same job with the type whose value is \<open>s\<close>, and raises the
  validation error for every other string.
\<close>

theorem job_type_accepted_values:
  assumes "job_init ts nc nu kw = Inr j0"
  shows "(s \<in> {''PARSE_FULL'', ''PARSE_INCREMENTAL'', ''WEBHOOK_PROCESS'', ''CLEANUP''}
            \<longrightarrow> (\<exists>ty. job_type_value ty = s
                     \<and> job_init ts nc nu (kw\<lparr>kw_type := s\<rparr>) = Inr (j0\<lparr>j_type := ty\<rparr>)))
         \<and> (s \<notin> {''PARSE_FULL'', ''PARSE_INCREMENTAL'', ''WEBHOOK_PROCESS'', ''CLEANUP''}
            \<longrightarrow> job_init ts nc nu (kw\<lparr>kw_type := s\<rparr>) = Inl ValidationError)"
proof (cases "job_type_of_value s")
  case None
  then have "\<And>ty. job_type_value ty \<noteq> s"
    using job_type_of_value_iff [of s] by auto
  then have "s \<notin> {''PARSE_FULL'', ''PARSE_INCREMENTAL'', ''WEBHOOK_PROCESS'', ''CLEANUP''}"
    using job_type_value_range [of s] by blast
  with None show ?thesis unfolding job_init_type [OF assms] by simp
next
  case (Some ty)
  then have v: "job_type_value ty = s" by (simp add: job_type_of_value_iff)
  then have "s \<in> {''PARSE_FULL'', ''PARSE_INCREMENTAL'', ''WEBHOOK_PROCESS'', ''CLEANUP''}"
    using job_type_value_range [of s] by blast
  with Some v show ?thesis unfolding job_init_type [OF assms] by auto
qed

theorem job_type_accepted_values_witness:
  "(\<exists>j. job_init utc_timestamp 0 0 (example_job_kwargs\<lparr>kw_type := ''PARSE_INCREMENTAL''\<rparr>) = Inr j
        \<and> j_type j = PARSE_INCREMENTAL)
   \<and> job_init utc_timestamp 0 0 (example_job_kwargs\<lparr>kw_type := ''FULL_PARSE''\<rparr>)
       = Inl ValidationError
   \<and> job_init utc_timestamp 0 0 (example_job_kwargs\<lparr>kw_type := ''parse_full''\<rparr>)
       = Inl ValidationError"
proof -
  obtain j0 where j0: "job_init utc_timestamp 0 0 example_job_kwargs = Inr j0"
    using example_job by blast
  have "\<And>ty. job_type_value ty = ''PARSE_INCREMENTAL'' \<Longrightarrow> ty = PARSE_INCREMENTAL"
    by (case_tac ty) simp_all
  then show ?thesis
    using job_type_accepted_values [OF j0, of "''PARSE_INCREMENTAL''"]
      job_type_accepted_values [OF j0, of "''FULL_PARSE''"]
      job_type_accepted_values [OF j0, of "''parse_full''"] by auto
qed

text \<open>
  Claim C7 as it is stated names FULL_PARSE and INCREMENTAL_PARSE among the accepted
  values. The job model rejects both.
\<close>

theorem job_type_rejects_FULL_PARSE:
  "job_init utc_timestamp 0 0 (example_job_kwargs\<lparr>kw_type := ''FULL_PARSE''\<rparr>) = Inl ValidationError
   \<and> job_init utc_timestamp 0 0 (example_job_kwargs\<lparr>kw_type := ''INCREMENTAL_PARSE''\<rparr>)
       = Inl ValidationError"
  by (simp add: job_init_def example_job_kwargs_def job_type_of_value_def enum_of_value_def)

text \<open>
  Claim C4. For every integer \<open>p\<close>, constructing a job with progress \<open>p\<close> and
  constructing a partial-update request with progress \<open>p\<close> raise the validation error
  exactly when \<open>p < 0\<close> or \<open>p > 100\<close>; otherwise the object is the one constructed without
  a progress, with \<open>p\<close> unchanged in its progress field. Both constructors are functions
  of their arguments alone: none takes or returns a store.
\<close>

theorem progress_validation:
  assumes "job_init ts nc nu (kw\<lparr>kw_progress := None\<rparr>) = Inr j0"
    and "job_update_request_init (ukw\<lparr>ukw_progress := None\<rparr>) = Inr r0"
  shows "job_init ts nc nu (kw\<lparr>kw_progress := Some p\<rparr>) =
           (if p < 0 \<or> p > 100 then Inl ValidationError else Inr (j0\<lparr>j_progress := p\<rparr>))
       \<and> job_update_request_init (ukw\<lparr>ukw_progress := Some p\<rparr>) =
           (if p < 0 \<or> p > 100 then Inl ValidationError else Inr (r0\<lparr>u_progress := Some p\<rparr>))"
proof
  show "job_init ts nc nu (kw\<lparr>kw_progress := Some p\<rparr>) =
           (if p < 0 \<or> p > 100 then Inl ValidationError else Inr (j0\<lparr>j_progress := p\<rparr>))"
    using assms(1) unfolding job_init_def Let_def validate_progress_def
    by (auto split: option.splits sum.splits)
  show "job_update_request_init (ukw\<lparr>ukw_progress := Some p\<rparr>) =
           (if p < 0 \<or> p > 100 then Inl ValidationError else Inr (r0\<lparr>u_progress := Some p\<rparr>))"
    using assms(2) unfolding job_update_request_init_def validate_progress_opt_def
    by (auto split: option.splits sum.splits)
qed

theorem progress_validation_witness:
  "job_init utc_timestamp 0 0 (example_job_kwargs\<lparr>kw_progress := Some 101\<rparr>) = Inl ValidationError
   \<and> job_update_request_init (example_update_kwargs\<lparr>ukw_progress := Some (- 1)\<rparr>)
       = Inl ValidationError
   \<and> (\<exists>j. job_init utc_timestamp 0 0 (example_job_kwargs\<lparr>kw_progress := Some 100\<rparr>) = Inr j
            \<and> j_progress j = 100)
   \<and> (\<exists>r. job_update_request_init (example_update_kwargs\<lparr>ukw_progress := Some 0\<rparr>) = Inr r
            \<and> u_progress r = Some 0)"
proof -
  obtain j0 where j0: "job_init utc_timestamp 0 0 (example_job_kwargs\<lparr>kw_progress := None\<rparr>) = Inr j0"
    using example_job by (auto simp: example_job_kwargs_def)
  obtain r0 where r0: "job_update_request_init (example_update_kwargs\<lparr>ukw_progress := None\<rparr>) = Inr r0"
    using example_update by (auto simp: example_update_kwargs_def)
  show ?thesis
    using progress_validation [OF j0 r0, of 101] progress_validation [OF j0 r0, of "- 1"]
      progress_validation [OF j0 r0, of 100] progress_validation [OF j0 r0, of 0]
    by simp
qed

text \<open>
  Claim C6. For every job constructed without a TTL, the TTL field is the epoch-second
  timestamp of the creation time plus 30 days; for every job constructed with a TTL, the
  field holds that value.
\<close>

theorem ttl_default:
  assumes "job_init ts nc nu kw = Inr j"
  shows "j_ttl j =
           (case kw_ttl kw of
              None \<Rightarrow> Some (ts (j_created_at j + days_us 30))
            | Some t \<Rightarrow> Some t)"
  using assms unfolding job_init_def Let_def auto_ttl_def plus_days_def
  by (auto split: option.splits sum.splits if_splits)

theorem ttl_default_witness:
  "(\<exists>j. job_init utc_timestamp 0 0 example_job_kwargs = Inr j \<and> j_ttl j = Some 2592001)
   \<and> (\<exists>j. job_init utc_timestamp 0 0 (example_job_kwargs\<lparr>kw_ttl := Some 42\<rparr>) = Inr j
            \<and> j_ttl j = Some 42)"
proof -
  obtain j where j: "job_init utc_timestamp 0 0 example_job_kwargs = Inr j"
    using example_job by blast
  then have c: "j_created_at j = 1000000"
    by (auto simp: job_init_def example_job_kwargs_def Let_def split: option.splits sum.splits)
  have "\<exists>j'. job_init utc_timestamp 0 0 (example_job_kwargs\<lparr>kw_ttl := Some 42\<rparr>) = Inr j'"
    by (simp add: job_init_def example_job_kwargs_def job_type_of_value_def enum_of_value_def
        auto_ttl_def validate_progress_def)
  then obtain j' where j': "job_init utc_timestamp 0 0 (example_job_kwargs\<lparr>kw_ttl := Some 42\<rparr>) = Inr j'"
    by blast
  have "j_ttl j = Some 2592001"
    using ttl_default [OF j] c by (simp add: example_job_kwargs_def utc_timestamp_def days_us_def)
  moreover have "j_ttl j' = Some 42"
    using ttl_default [OF j'] by simp
  ultimately show ?thesis using j j' by simp
qed

section \<open>The conversion of a job to an item and back\<close>

lemma map_of_set_if:
  "map_of (set_if c k v d) k' = (if c \<and> k' = k then Some v else map_of d k')"
  by (simp add: set_if_def update_conv')

lemma job_item_fixed_keys:
  "map_of (job_to_item env j) ''job_id'' = Some (VStr (j_job_id j))"
  "map_of (job_to_item env j) ''repo_id'' = Some (VStr (j_repo_id j))"
  "map_of (job_to_item env j) ''type'' = Some (VStr (job_type_value (j_type j)))"
  "map_of (job_to_item env j) ''status'' = Some (VStr (job_status_value (j_status j)))"
  "map_of (job_to_item env j) ''priority'' = Some (VStr (job_priority_value (j_priority j)))"
  "map_of (job_to_item env j) ''created_at'' = Some (VStr (isoformat env (j_created_at j)))"
  "map_of (job_to_item env j) ''updated_at'' = Some (VStr (isoformat env (j_updated_at j)))"
  "map_of (job_to_item env j) ''ttl'' = Some (opt_to_val VInt (j_ttl j))"
  "map_of (job_to_item env j) ''progress'' = Some (VInt (j_progress j))"
  "map_of (job_to_item env j) ''processed_files'' = Some (VInt (j_processed_files j))"
  "map_of (job_to_item env j) ''input_params'' = Some (opt_to_val VDict (j_input_params j))"
  "map_of (job_to_item env j) ''output_result'' = Some (opt_to_val VDict (j_output_result j))"
  "map_of (job_to_item env j) ''metadata'' = Some (opt_to_val VDict (j_metadata j))"
  by (simp_all add: job_to_item_def map_of_set_if)

lemma job_item_optional_keys:
  "map_of (job_to_item env j) ''started_at'' = map_option (\<lambda>d. VStr (isoformat env d)) (j_started_at j)"
  "map_of (job_to_item env j) ''completed_at'' = map_option (\<lambda>d. VStr (isoformat env d)) (j_completed_at j)"
  "map_of (job_to_item env j) ''executor'' = map_option VStr (falsy_to_none VStr (j_executor j))"
  "map_of (job_to_item env j) ''error_message'' = map_option VStr (falsy_to_none VStr (j_error_message j))"
  "map_of (job_to_item env j) ''total_files'' = map_option VInt (falsy_to_none VInt (j_total_files j))"
  by (auto simp add: job_to_item_def map_of_set_if falsy_to_none_def opt_to_val_def iso_val_def split: option.splits)


lemma job_status_of_value_value: "job_status_of_value (job_status_value st) = Some st"
  by (cases st) (simp_all add: job_status_of_value_def enum_of_value_def)
lemma job_type_of_value_value: "job_type_of_value (job_type_value ty) = Some ty"
  by (cases ty) (simp_all add: job_type_of_value_def enum_of_value_def)
lemma job_priority_of_value_value: "job_priority_of_value (job_priority_value pr) = Some pr"
  by (cases pr) (simp_all add: job_priority_of_value_def enum_of_value_def)

lemma bind_Inr: "bind (Inr x) f = f x"
  by (simp add: bind_def)

lemma parse_datetime_iso:
  "iso_law env d \<Longrightarrow> parse_datetime env (VStr (isoformat env d)) = Inr d"
  by (simp add: parse_datetime_def iso_law_def)

lemma job_item_required:
  "dict_item (job_to_item env j) ''job_id'' = Inr (VStr (j_job_id j))"
  "dict_item (job_to_item env j) ''repo_id'' = Inr (VStr (j_repo_id j))"
  "bind (dict_item (job_to_item env j) ''type'') (enum_call job_type_of_value) = Inr (j_type j)"
  "bind (dict_item (job_to_item env j) ''status'') (enum_call job_status_of_value) = Inr (j_status j)"
  "enum_call job_priority_of_value (dict_get_default (job_to_item env j) ''priority'' (VStr ''NORMAL''))
     = Inr (j_priority j)"
  by (simp_all add: dict_item_def dict_get_default_def job_item_fixed_keys bind_def enum_call_def
      job_status_of_value_value job_type_of_value_value job_priority_of_value_value)

lemma job_item_datetimes:
  assumes "job_constructed env j"
  shows "parse_datetime_opt env (job_to_item env j) ''started_at'' = Inr (j_started_at j)"
    and "parse_datetime_opt env (job_to_item env j) ''completed_at'' = Inr (j_completed_at j)"
    and "bind (dict_item (job_to_item env j) ''created_at'') (parse_datetime env) = Inr (j_created_at j)"
    and "bind (dict_item (job_to_item env j) ''updated_at'') (parse_datetime env) = Inr (j_updated_at j)"
  using assms
  by (auto simp: job_constructed_def iso_law_opt_def parse_datetime_opt_def dict_get_def
      dict_item_def job_item_fixed_keys job_item_optional_keys bind_def parse_datetime_iso
      iso_law_def split: option.splits)

lemma job_item_fields:
  "field_opt_int (dict_get (job_to_item env j) ''ttl'') = Inr (j_ttl j)"
  "field_opt_str (dict_get (job_to_item env j) ''executor'') = Inr (falsy_to_none VStr (j_executor j))"
  "field_opt_str (dict_get (job_to_item env j) ''error_message'')
     = Inr (falsy_to_none VStr (j_error_message j))"
  "field_int (dict_get_default (job_to_item env j) ''progress'' (VInt 0)) = Inr (j_progress j)"
  "field_int (dict_get_default (job_to_item env j) ''processed_files'' (VInt 0))
     = Inr (j_processed_files j)"
  "field_opt_int (dict_get (job_to_item env j) ''total_files'') = Inr (falsy_to_none VInt (j_total_files j))"
  "field_opt_dict (dict_get_default (job_to_item env j) ''input_params'' (VDict [])) = Inr (j_input_params j)"
  "field_opt_dict (dict_get_default (job_to_item env j) ''output_result'' (VDict [])) = Inr (j_output_result j)"
  "field_opt_dict (dict_get_default (job_to_item env j) ''metadata'' (VDict [])) = Inr (j_metadata j)"
  by (auto simp: dict_get_def dict_get_default_def job_item_fixed_keys job_item_optional_keys
      field_opt_int_def field_opt_str_def field_int_def field_opt_dict_def opt_to_val_def
      falsy_to_none_def split: option.splits)

lemma job_roundtrip:
  assumes "job_constructed env j"
  shows "job_from_item env ts nc nu (job_to_item env j) = Inr (roundtrip_image j)"
proof -
  have ttl: "\<exists>t. j_ttl j = Some t" and p: "0 \<le> j_progress j" "j_progress j \<le> 100"
    using assms by (auto simp: job_constructed_def)
  show ?thesis
    unfolding job_from_item_def job_item_required job_item_datetimes [OF assms] job_item_fields
      bind_Inr field_str_def pyval.case
    using ttl p
    by (auto simp: job_init_def job_status_of_value_value job_type_of_value_value
        job_priority_of_value_value auto_ttl_def validate_progress_def dict_default_def
        roundtrip_image_def)
qed

text \<open>
  Claim C10, as the code has it. For every job as its constructor leaves it, the
  conversion to an item and back succeeds and preserves the job id, the repository id, the
  type, the status, the priority, the four timestamps, the TTL, the progress and the
  count of processed files; a total of zero files comes back as \<open>None\<close> and every other
  total unchanged, a negative one included. The round trip is the identity exactly for
  the jobs whose total is \<open>None\<close> or not zero and whose executor and error message are
  \<open>None\<close> or not empty.
\<close>

theorem job_item_roundtrip:
  assumes "job_constructed env j"
  shows "\<exists>j'. job_from_item env ts nc nu (job_to_item env j) = Inr j'
           \<and> j_job_id j' = j_job_id j \<and> j_repo_id j' = j_repo_id j \<and> j_type j' = j_type j
           \<and> j_status j' = j_status j \<and> j_priority j' = j_priority j
           \<and> j_started_at j' = j_started_at j \<and> j_completed_at j' = j_completed_at j
           \<and> j_created_at j' = j_created_at j \<and> j_updated_at j' = j_updated_at j
           \<and> j_ttl j' = j_ttl j \<and> j_progress j' = j_progress j
           \<and> j_processed_files j' = j_processed_files j
           \<and> j_total_files j' = (if j_total_files j = Some 0 then None else j_total_files j)
           \<and> (j' = j \<longleftrightarrow> j_total_files j \<noteq> Some 0 \<and> j_executor j \<noteq> Some []
                         \<and> j_error_message j \<noteq> Some [])"
proof -
  have total: "j_total_files (roundtrip_image j)
                 = (if j_total_files j = Some 0 then None else j_total_files j)"
    by (cases "j_total_files j") (auto simp: roundtrip_image_def falsy_to_none_def opt_to_val_def)
  have "roundtrip_image j = j \<longleftrightarrow>
          falsy_to_none VStr (j_executor j) = j_executor j
          \<and> falsy_to_none VStr (j_error_message j) = j_error_message j
          \<and> falsy_to_none VInt (j_total_files j) = j_total_files j"
    by (cases j) (auto simp: roundtrip_image_def)
  moreover have "falsy_to_none VStr (j_executor j) = j_executor j \<longleftrightarrow> j_executor j \<noteq> Some []"
    by (cases "j_executor j") (auto simp: falsy_to_none_def opt_to_val_def)
  moreover have "falsy_to_none VStr (j_error_message j) = j_error_message j
                   \<longleftrightarrow> j_error_message j \<noteq> Some []"
    by (cases "j_error_message j") (auto simp: falsy_to_none_def opt_to_val_def)
  moreover have "falsy_to_none VInt (j_total_files j) = j_total_files j
                   \<longleftrightarrow> j_total_files j \<noteq> Some 0"
    by (cases "j_total_files j") (auto simp: falsy_to_none_def opt_to_val_def)
  ultimately have ident: "roundtrip_image j = j \<longleftrightarrow> j_total_files j \<noteq> Some 0
      \<and> j_executor j \<noteq> Some [] \<and> j_error_message j \<noteq> Some []"
    by blast
  have fields: "j_job_id (roundtrip_image j) = j_job_id j"
    "j_repo_id (roundtrip_image j) = j_repo_id j" "j_type (roundtrip_image j) = j_type j"
    "j_status (roundtrip_image j) = j_status j" "j_priority (roundtrip_image j) = j_priority j"
    "j_started_at (roundtrip_image j) = j_started_at j"
    "j_completed_at (roundtrip_image j) = j_completed_at j"
    "j_created_at (roundtrip_image j) = j_created_at j"
    "j_updated_at (roundtrip_image j) = j_updated_at j" "j_ttl (roundtrip_image j) = j_ttl j"
    "j_progress (roundtrip_image j) = j_progress j"
    "j_processed_files (roundtrip_image j) = j_processed_files j"
    by (simp_all add: roundtrip_image_def)
  show ?thesis
    using job_roundtrip [OF assms, of ts nc nu] total ident fields by simp
qed

lemma example_jobs_constructed:
  "job_constructed example_env example_job_negative_total"
  "job_constructed example_env example_job_zero_total"
  by (simp_all add: job_constructed_def example_job_zero_total_def example_job_negative_total_def
      iso_law_def iso_law_opt_def example_env_def example_isoformat_def example_fromisoformat_def)

theorem job_item_roundtrip_witness:
  "\<exists>j'. job_from_item example_env utc_timestamp 0 0 (job_to_item example_env example_job_zero_total)
         = Inr j'
       \<and> j_total_files j' = None \<and> j_progress j' = 45 \<and> j' \<noteq> example_job_zero_total"
  using job_item_roundtrip [OF example_jobs_constructed(2), of utc_timestamp 0 0]
  by (auto simp: example_job_zero_total_def example_job_negative_total_def)

text \<open>
  Claim C10 as it is stated lets the round trip be the identity only for a total that is
  \<open>None\<close> or positive. A job with the total \<open>-1\<close>, which the model accepts, comes back as
  it was.
\<close>

theorem job_negative_total_roundtrip:
  "job_from_item example_env utc_timestamp 0 0 (job_to_item example_env example_job_negative_total)
     = Inr example_job_negative_total
   \<and> j_total_files example_job_negative_total = Some (- 1)"
proof -
  have "roundtrip_image example_job_negative_total = example_job_negative_total"
    by (simp add: roundtrip_image_def falsy_to_none_def opt_to_val_def
        example_job_negative_total_def)
  then show ?thesis
    using job_roundtrip [OF example_jobs_constructed(1), of utc_timestamp 0 0]
    by (simp add: example_job_negative_total_def)
qed

section \<open>Properties of the repository manager\<close>

lemma get_item_has_key: "get_item t k = Some item \<Longrightarrow> has_key k item"
  unfolding get_item_def by (auto simp: find_Some_iff)

lemma check_cond_live:
  assumes "map_of vals '':false'' = Some (VBool False)"
  shows "check_cond vals (get_item t k) (Some cond_live) = is_live t k"
proof (cases "get_item t k")
  case None
  then show ?thesis by (simp add: check_cond_def cond_live_def is_live_def)
next
  case (Some item)
  then have "map_of item ''repo_id'' = Some (VStr k)"
    using get_item_has_key [of t k item] by (simp add: has_key_def)
  with Some assms show ?thesis
    by (auto simp: check_cond_def cond_live_def is_live_def)
qed

lemma check_cond_present:
  "check_cond vals (get_item t k) (Some cond_present) = (get_item t k \<noteq> None)"
proof (cases "get_item t k")
  case None
  then show ?thesis by (simp add: check_cond_def cond_present_def)
next
  case (Some item)
  then have "map_of item ''repo_id'' = Some (VStr k)"
    using get_item_has_key [of t k item] by (simp add: has_key_def)
  with Some show ?thesis by (simp add: check_cond_def cond_present_def)
qed

lemma placeholders_ok:
  "placeholder_ok (CHR '':'') '':true''" "placeholder_ok (CHR '':'') '':updated_at''"
  "placeholder_ok (CHR '':'') '':status''" "placeholder_ok (CHR '':'') '':last_scan_sha''"
  "placeholder_ok (CHR '':'') '':last_scan_at''"
  "placeholder_ok (CHR ''#'') ''#updated_at''"
  "placeholder_ok (CHR ''#'') ''#status''" "placeholder_ok (CHR ''#'') ''#last_scan_sha''"
  "placeholder_ok (CHR ''#'') ''#last_scan_at''"
  by code_simp+

lemma delete_physical:
  "delete_repository env now t k True =
     (if \<not> key_ok k then (t, Inl DynamoDB_Exception)
      else if get_item t k = None then (t, Inr False)
      else (t\<lparr>rows := filter (\<lambda>item. \<not> has_key k item) (rows t)\<rparr>, Inr True))"
  by (simp add: delete_repository_def item_delete_def ddb_delete_item_def check_cond_present
      translate_def)

lemma delete_logical:
  "delete_repository env now t k False =
     (if \<not> key_ok k then (t, Inl DynamoDB_Exception)
      else if is_live t k
      then (store_item t k
              (apply_sets [(''deleted'', VBool True), (''updated_at'', VStr (isoformat env now))]
                 (the (get_item t k))), Inr True)
      else (t, Inr False))"
proof -
  have r: "resolve_sets [] [('':true'', VBool True), ('':updated_at'', VStr (isoformat env now)),
                 ('':false'', VBool False)] [(''deleted'', '':true''), (''updated_at'', '':updated_at'')]
           = Some [(''deleted'', VBool True), (''updated_at'', VStr (isoformat env now))]"
    by (simp add: resolve_name_def resolve_value_def placeholders_ok)
  have c: "check_cond [('':true'', VBool True), ('':updated_at'', VStr (isoformat env now)),
                 ('':false'', VBool False)] (get_item t k) (Some cond_live) = is_live t k"
    by (rule check_cond_live) simp
  show ?thesis
  proof (cases "key_ok k")
    case bad: False
    then show ?thesis
      unfolding delete_repository_def item_update_def ddb_update_item_def
      by (simp add: translate_def)
  next
    case ok: True
    show ?thesis
    proof (cases "is_live t k")
      case True
      then obtain item where "get_item t k = Some item"
        by (auto simp: is_live_def split: option.splits)
      with True ok show ?thesis
        unfolding delete_repository_def item_update_def ddb_update_item_def r c
        by (simp add: Let_def)
    next
      case False
      with ok show ?thesis
        unfolding delete_repository_def item_update_def ddb_update_item_def r c
        by (simp add: translate_def)
    qed
  qed
qed


lemma update_status_not_live:
  assumes "\<not> is_live t k" "key_ok k"
  shows "update_repository env now t k [(''status'', v)] = (t, Inr None)"
    and "update_repository env now t k
           [(''status'', v), (''last_scan_sha'', u), (''last_scan_at'', w)] = (t, Inr None)"
proof -
  have c: "\<And>vals. map_of vals '':false'' = Some (VBool False)
             \<Longrightarrow> check_cond vals (get_item t k) (Some cond_live) = False"
    using assms(1) check_cond_live by simp
  show "update_repository env now t k [(''status'', v)] = (t, Inr None)"
    unfolding update_repository_def update_request_def Let_def item_update_def ddb_update_item_def
    using assms(2)
    by (simp add: resolve_name_def resolve_value_def placeholders_ok c translate_def)
  show "update_repository env now t k
           [(''status'', v), (''last_scan_sha'', u), (''last_scan_at'', w)] = (t, Inr None)"
    unfolding update_repository_def update_request_def Let_def item_update_def ddb_update_item_def
    using assms(2)
    by (simp add: resolve_name_def resolve_value_def placeholders_ok c translate_def)
qed

lemma update_bad_key:
  assumes "\<not> key_ok k"
  shows "update_repository env now t k data = (t, Inl DynamoDB_Exception)"
proof -
  obtain sets vals names
    where req: "update_request (AList.update ''updated_at'' (VStr (isoformat env now)) data)
                  = (sets, vals, names)"
    by (cases "update_request (AList.update ''updated_at'' (VStr (isoformat env now)) data)") auto
  show ?thesis
    unfolding update_repository_def Let_def req
    using assms by (simp add: item_update_def ddb_update_item_def translate_def)
qed

lemma set_status_not_live:
  assumes "\<not> is_live t k" "key_ok k"
  shows "set_status env now_scan now t k new_status last_scan_sha = (t, Inr False)"
  unfolding set_status_def Let_def
  by (simp add: update_status_not_live [OF assms])

lemma set_status_bad_key:
  assumes "\<not> key_ok k"
  shows "set_status env now_scan now t k new_status last_scan_sha = (t, Inl DynamoDB_Exception)"
  unfolding set_status_def Let_def
  by (simp add: update_bad_key [OF assms])

subsection \<open>Items written by the manager\<close>

lemma dropWhile_fixed: "xs \<noteq> [] \<Longrightarrow> \<not> P (hd xs) \<Longrightarrow> dropWhile P xs = xs"
  by (cases xs) auto

lemma strip_ends:
  assumes "strip s \<noteq> []"
  shows "\<not> is_space (hd (strip s))" and "\<not> is_space (last (strip s))"
proof -
  let ?a = "dropWhile is_space s"
  let ?r = "dropWhile is_space (rev ?a)"
  have r: "?r \<noteq> []" using assms by (simp add: strip_def)
  then have "\<not> is_space (hd ?r)" by (rule hd_dropWhile)
  then show "\<not> is_space (last (strip s))"
    using r by (simp add: strip_def last_rev)
  have a: "?a \<noteq> []" using r by (metis dropWhile.simps(1) rev.simps(1))
  then have ha: "\<not> is_space (hd ?a)" by (rule hd_dropWhile)
  have "rev ?a = takeWhile is_space (rev ?a) @ ?r" by simp
  then have "?a = rev ?r @ rev (takeWhile is_space (rev ?a))"
    by (metis rev_append rev_rev_ident)
  then have "hd ?a = hd (rev ?r)" using r by (metis hd_append2 rev_is_Nil_conv)
  with ha show "\<not> is_space (hd (strip s))" by (simp add: strip_def)
qed

lemma strip_idem: "strip (strip s) = strip s"
proof (cases "strip s = []")
  case True
  have "strip [] = []" by (simp add: strip_def)
  with True show ?thesis by simp
next
  case False
  note e = strip_ends [OF False]
  have 1: "dropWhile is_space (strip s) = strip s"
    using False e(1) by (rule dropWhile_fixed)
  have "rev (strip s) \<noteq> []" "\<not> is_space (hd (rev (strip s)))"
    using False e(2) by (simp_all add: hd_rev)
  then have 2: "dropWhile is_space (rev (strip s)) = rev (strip s)"
    by (rule dropWhile_fixed)
  show ?thesis
    unfolding strip_def [of "strip s"] 1 2 by simp
qed

lemma length_strip: "length (strip s) \<le> length s"
proof -
  have "length (strip s) = length (dropWhile is_space (rev (dropWhile is_space s)))"
    by (simp add: strip_def)
  also have "\<dots> \<le> length (rev (dropWhile is_space s))" by (rule length_dropWhile_le)
  also have "\<dots> \<le> length s" by (simp add: length_dropWhile_le)
  finally show ?thesis .
qed

lemma validate_display_name_stable:
  "validate_display_name v = Inr name \<Longrightarrow> validate_display_name name = Inr name"
  using length_strip [of v]
  by (auto simp: validate_display_name_def strip_idem split: if_splits)

lemma validate_url_result: "validate_url p v = Inr u \<Longrightarrow> u = v"
  by (auto simp: validate_url_def split: if_splits)


lemma repo_provider_of_value_value: "repo_provider_of_value (repo_provider_value p) = Some p"
  by (cases p) (simp_all add: repo_provider_of_value_def enum_of_value_def)

lemma repo_status_of_value_value: "repo_status_of_value (repo_status_value st) = Some st"
  by (cases st) (simp_all add: repo_status_of_value_def enum_of_value_def)

lemma repo_item_keys:
  "map_of (repo_to_item env r) ''repo_id'' = Some (VStr (r_repo_id r))"
  "map_of (repo_to_item env r) ''provider'' = Some (VStr (repo_provider_value (r_provider r)))"
  "map_of (repo_to_item env r) ''remote_url'' = Some (VStr (r_remote_url r))"
  "map_of (repo_to_item env r) ''display_name'' = Some (VStr (r_display_name r))"
  "map_of (repo_to_item env r) ''default_branch'' = Some (VStr (r_default_branch r))"
  "map_of (repo_to_item env r) ''status'' = Some (VStr (repo_status_value (r_status r)))"
  "map_of (repo_to_item env r) ''created_at'' = Some (VStr (isoformat env (r_created_at r)))"
  "map_of (repo_to_item env r) ''updated_at'' = Some (VStr (isoformat env (r_updated_at r)))"
  "map_of (repo_to_item env r) ''deleted'' = Some (VBool (r_deleted r))"
  "map_of (repo_to_item env r) ''metadata'' = Some (opt_to_val VDict (r_metadata r))"
  by (simp_all add: repo_to_item_def map_of_set_if)

lemma repo_item_optional_keys:
  "map_of (repo_to_item env r) ''last_scan_sha'' = map_option VStr (falsy_to_none VStr (r_last_scan_sha r))"
  "map_of (repo_to_item env r) ''last_scan_at'' = map_option (\<lambda>d. VStr (isoformat env d)) (r_last_scan_at r)"
  by (auto simp add: repo_to_item_def map_of_set_if falsy_to_none_def opt_to_val_def iso_val_def
      split: option.splits)

lemma repo_item_required:
  "dict_item (repo_to_item env r) ''repo_id'' = Inr (VStr (r_repo_id r))"
  "bind (dict_item (repo_to_item env r) ''provider'') (enum_call repo_provider_of_value) = Inr (r_provider r)"
  "dict_item (repo_to_item env r) ''remote_url'' = Inr (VStr (r_remote_url r))"
  "dict_item (repo_to_item env r) ''display_name'' = Inr (VStr (r_display_name r))"
  "enum_call repo_status_of_value (dict_get_default (repo_to_item env r) ''status'' (VStr ''READY''))
     = Inr (r_status r)"
  by (simp_all add: dict_item_def dict_get_default_def repo_item_keys bind_def enum_call_def
      repo_provider_of_value_value repo_status_of_value_value)

lemma repo_item_datetimes:
  assumes "iso_law env (r_created_at r)" "iso_law env (r_updated_at r)"
    "iso_law_opt env (r_last_scan_at r)"
  shows "parse_datetime_opt env (repo_to_item env r) ''last_scan_at'' = Inr (r_last_scan_at r)"
    and "bind (dict_item (repo_to_item env r) ''created_at'') (parse_datetime env) = Inr (r_created_at r)"
    and "bind (dict_item (repo_to_item env r) ''updated_at'') (parse_datetime env) = Inr (r_updated_at r)"
  using assms
  by (auto simp: iso_law_opt_def parse_datetime_opt_def dict_get_def
      dict_item_def repo_item_keys repo_item_optional_keys bind_def parse_datetime_iso
      iso_law_def split: option.splits)

lemma repo_item_fields:
  "field_str (dict_get_default (repo_to_item env r) ''default_branch'' (VStr ''main''))
     = Inr (r_default_branch r)"
  "field_opt_str (dict_get (repo_to_item env r) ''last_scan_sha'')
     = Inr (falsy_to_none VStr (r_last_scan_sha r))"
  "field_bool (dict_get_default (repo_to_item env r) ''deleted'' (VBool False)) = Inr (r_deleted r)"
  "field_opt_dict (dict_get_default (repo_to_item env r) ''metadata'' (VDict [])) = Inr (r_metadata r)"
  by (auto simp: dict_get_def dict_get_default_def repo_item_keys repo_item_optional_keys
      field_opt_str_def field_str_def field_bool_def field_opt_dict_def opt_to_val_def
      falsy_to_none_def split: option.splits)

lemma field_str_VStr: "field_str (VStr s) = Inr s"
  by (simp add: field_str_def)

lemma repo_roundtrip:
  assumes "iso_law env (r_created_at r)" "iso_law env (r_updated_at r)"
    "iso_law_opt env (r_last_scan_at r)" "repository_init r = Inr r"
  shows "repo_from_item env (repo_to_item env r)
           = Inr (r\<lparr>r_last_scan_sha := falsy_to_none VStr (r_last_scan_sha r)\<rparr>)"
proof -
  from assms(4) obtain url name
    where u: "validate_url (r_provider r) (r_remote_url r) = Inr url"
      and n: "validate_display_name (r_display_name r) = Inr name"
      and e: "r\<lparr>r_remote_url := url, r_display_name := name\<rparr> = r"
    by (auto simp: repository_init_def split: sum.splits)
  have "r_remote_url (r\<lparr>r_remote_url := url, r_display_name := name\<rparr>) = url"
    and "r_display_name (r\<lparr>r_remote_url := url, r_display_name := name\<rparr>) = name"
    by simp_all
  then have "url = r_remote_url r" "name = r_display_name r"
    unfolding e by simp_all
  with u n have i: "repository_init (r\<lparr>r_last_scan_sha := falsy_to_none VStr (r_last_scan_sha r)\<rparr>)
          = Inr (r\<lparr>r_last_scan_sha := falsy_to_none VStr (r_last_scan_sha r)\<rparr>)"
    by (simp add: repository_init_def)
  have e2: "\<lparr> r_repo_id = r_repo_id r, r_provider = r_provider r, r_remote_url = r_remote_url r,
           r_display_name = r_display_name r, r_default_branch = r_default_branch r,
           r_status = r_status r,
           r_last_scan_sha = falsy_to_none VStr (r_last_scan_sha r), r_last_scan_at = r_last_scan_at r,
           r_created_at = r_created_at r, r_updated_at = r_updated_at r, r_deleted = r_deleted r,
           r_metadata = r_metadata r \<rparr> = r\<lparr>r_last_scan_sha := falsy_to_none VStr (r_last_scan_sha r)\<rparr>"
    by (cases r) simp
  show ?thesis
    unfolding repo_from_item_def repo_item_required repo_item_datetimes [OF assms(1-3)]
      repo_item_fields bind_Inr field_str_VStr e2
    by (rule i)
qed

lemma repository_init_stable:
  assumes "repository_init raw = Inr r"
  shows "repository_init r = Inr r"
proof -
  from assms obtain url name where u: "validate_url (r_provider raw) (r_remote_url raw) = Inr url"
    and n: "validate_display_name (r_display_name raw) = Inr name"
    and r: "r = raw\<lparr>r_remote_url := url, r_display_name := name\<rparr>"
    by (auto simp: repository_init_def split: sum.splits)
  have "url = r_remote_url raw" using u by (rule validate_url_result)
  with u n r show ?thesis
    by (simp add: repository_init_def validate_display_name_stable)
qed


lemma find_first_row:
  assumes "rows t = repo_to_item env r # rest" "repository_init r = Inr r"
    "iso_law env (r_created_at r)" "iso_law env (r_updated_at r)"
    "iso_law_opt env (r_last_scan_at r)" "\<not> r_deleted r"
  shows "find_repository_by_url env t (r_remote_url r)
           = Inr (Some (r\<lparr>r_last_scan_sha := falsy_to_none VStr (r_last_scan_sha r)\<rparr>))"
  using assms(1,6)
  by (simp add: find_repository_by_url_def scan_exec_def ddb_scan_def url_filter_def
      repo_item_keys repo_roundtrip [OF assms(3,4,5,2)])

lemma create_duplicate_first_row:
  assumes "rows t = repo_to_item env r # rest" "repository_init r = Inr r"
    "iso_law env (r_created_at r)" "iso_law env (r_updated_at r)"
    "iso_law_opt env (r_last_scan_at r)" "\<not> r_deleted r"
  shows "create_repository env new_id now t provider (r_remote_url r) display_name default_branch
           = (t, Inl Condition_Check_Error)"
  by (simp add: create_repository_def find_first_row [OF assms])

lemma create_on_empty:
  assumes "rows t = []" "validate_url provider remote_url = Inr u"
    "validate_display_name display_name = Inr name" "key_ok new_id"
  shows "create_repository env new_id now t provider remote_url display_name default_branch
           = (t\<lparr>rows :=
                  [repo_to_item env
                     \<lparr> r_repo_id = new_id, r_provider = provider, r_remote_url = remote_url,
                       r_display_name = name, r_default_branch = default_branch,
                       r_status = READY, r_last_scan_sha = None, r_last_scan_at = None,
                       r_created_at = now, r_updated_at = now, r_deleted = False,
                       r_metadata = Some [] \<rparr>]\<rparr>,
              Inr \<lparr> r_repo_id = new_id, r_provider = provider, r_remote_url = remote_url,
                    r_display_name = name, r_default_branch = default_branch,
                    r_status = READY, r_last_scan_sha = None, r_last_scan_at = None,
                    r_created_at = now, r_updated_at = now, r_deleted = False,
                    r_metadata = Some [] \<rparr>)"
proof -
  have u: "u = remote_url" using assms(2) by (rule validate_url_result)
  have f: "find_repository_by_url env t remote_url = Inr None"
    using assms(1) by (simp add: find_repository_by_url_def scan_exec_def ddb_scan_def)
  have g: "get_item t new_id = None" using assms(1) by (simp add: get_item_def)
  show ?thesis
    unfolding create_repository_def f
    using assms u g
    by (simp add: repository_init_def item_save_def ddb_put_item_def repo_item_keys
        check_cond_def cond_absent_def store_item_def insert_item_def)
qed

text \<open>
  Registration on a table without items: with a URL and a display name that the
  validators accept, a generated identifier that is a valid key, and a clock reading
  whose text can be read back, the repository is
  stored with the status READY; any later registration under the same URL, whatever its
  other arguments, then raises \<open>Condition_Check_Error\<close> and leaves the table as it is.
  The stored item is the only one, hence the one a scan reads first.
\<close>

lemma create_twice_on_empty:
  assumes "rows t = []" "validate_url provider remote_url = Inr u"
    "validate_display_name display_name = Inr name" "iso_law env now" "key_ok new_id"
  shows "\<exists>t' r. create_repository env new_id now t provider remote_url display_name default_branch
                  = (t', Inr r)
           \<and> r_status r = READY \<and> r_remote_url r = remote_url \<and> rows t' = [repo_to_item env r]
           \<and> create_repository env new_id' now' t' provider' remote_url display_name' default_branch'
                  = (t', Inl Condition_Check_Error)"
proof -
  define r where "r = \<lparr> r_repo_id = new_id, r_provider = provider, r_remote_url = remote_url,
                       r_display_name = name, r_default_branch = default_branch,
                       r_status = READY, r_last_scan_sha = None, r_last_scan_at = None,
                       r_created_at = now, r_updated_at = now, r_deleted = False,
                       r_metadata = Some [] \<rparr>"
  define t' where "t' = t\<lparr>rows := [repo_to_item env r]\<rparr>"
  have c: "create_repository env new_id now t provider remote_url display_name default_branch
             = (t', Inr r)"
    unfolding t'_def r_def by (rule create_on_empty [OF assms(1-3) assms(5)])
  have u: "u = remote_url" using assms(2) by (rule validate_url_result)
  have "repository_init r = Inr r"
    using assms(2,3) u by (simp add: repository_init_def r_def validate_display_name_stable)
  moreover have "rows t' = repo_to_item env r # []" by (simp add: t'_def)
  moreover have "iso_law env (r_created_at r)" "iso_law env (r_updated_at r)"
    "iso_law_opt env (r_last_scan_at r)" "\<not> r_deleted r"
    using assms(4) by (simp_all add: r_def iso_law_opt_def)
  ultimately have d: "create_repository env new_id' now' t' provider' (r_remote_url r) display_name'
      default_branch' = (t', Inl Condition_Check_Error)"
    using create_duplicate_first_row [of t' env r "[]"] by simp
  have "r_status r = READY" "r_remote_url r = remote_url" "rows t' = [repo_to_item env r]"
    by (simp_all add: r_def t'_def)
  with c d show ?thesis by (metis (no_types))
qed

text \<open>
  An update of an item that is absent or deleted leaves the table as it is, whatever the
  changes, and returns \<open>None\<close> or, for a malformed request (an invalid key included),
  raises the exception of the store layer.
\<close>

lemma update_not_live:
  assumes "\<not> is_live t k"
  shows "fst (update_repository env now t k data) = t"
    and "snd (update_repository env now t k data) = Inr None
         \<or> snd (update_repository env now t k data) = Inl DynamoDB_Exception"
proof -
  obtain sets vals names
    where req: "update_request (AList.update ''updated_at'' (VStr (isoformat env now)) data)
                  = (sets, vals, names)"
    by (cases "update_request (AList.update ''updated_at'' (VStr (isoformat env now)) data)") auto
  then have "map_of vals '':false'' = Some (VBool False)"
    by (auto simp: update_request_def Let_def update_conv')
  then have c: "check_cond vals (get_item t k) (Some cond_live) = False"
    using assms check_cond_live by simp
  have "update_repository env now t k data = (t, Inr None)
        \<or> update_repository env now t k data = (t, Inl DynamoDB_Exception)"
    unfolding update_repository_def Let_def req
    by (cases "resolve_sets names vals sets"; cases "key_ok k")
       (simp_all add: item_update_def ddb_update_item_def c translate_def)
  then show "fst (update_repository env now t k data) = t"
    and "snd (update_repository env now t k data) = Inr None
         \<or> snd (update_repository env now t k data) = Inl DynamoDB_Exception"
    by auto
qed

text \<open>
  The method that gets a repository, as in effect, raises no \<open>Item_Not_Found_Error\<close>; for
  a valid key and an item that the conversion of a valid repository has written it
  returns the repository, unless the repository is deleted.
\<close>

lemma get_never_not_found: "get_repository env t k \<noteq> Inl Item_Not_Found_Error"
  unfolding get_repository_def item_get_def ddb_get_item_def
  by (simp split: option.splits sum.splits)

lemma get_stored:
  assumes "get_item t k = Some (repo_to_item env r)" "repository_init r = Inr r"
    "iso_law env (r_created_at r)" "iso_law env (r_updated_at r)"
    "iso_law_opt env (r_last_scan_at r)" "key_ok k"
  shows "get_repository env t k =
           (if r_deleted r then Inr None
            else Inr (Some (r\<lparr>r_last_scan_sha := falsy_to_none VStr (r_last_scan_sha r)\<rparr>)))"
proof -
  have "repo_to_item env r \<noteq> []" by (simp add: repo_to_item_def set_if_def)
  then show ?thesis
    using assms(1,6)
    by (simp add: get_repository_def item_get_def ddb_get_item_def dict_get_default_def
        repo_item_keys repo_roundtrip [OF assms(3,4,5,2)])
qed

subsection \<open>The claims about the manager\<close>

text \<open>
  Claim C2, the code at the inputs where it departs from the claim. Getting a repository
  whose identifier has no item, and getting the repository of the scenario after its
  logical deletion, both return \<open>None\<close>: no exception is raised, and
  \<open>Item_Not_Found_Error\<close> in particular is not.
\<close>

theorem get_missing_returns_None:
  "get_repository example_env empty_table ''repo-00000001'' = Inr None
   \<and> get_repository example_env table_widgets_deleted ''repo-00000001'' = Inr None"
  by code_simp

text \<open>
  Claim C3, the code at the inputs where it departs from the claim. Updating a
  repository whose identifier has no item, and updating the repository of the scenario
  after its logical deletion, both return \<open>None\<close> and leave the items of the table as they
  were; the first definition of the method, which the second replaces, raises
  \<open>Item_Not_Found_Error\<close> there.
\<close>

theorem update_missing_returns_None:
  "snd (update_repository example_env 2000000 empty_table ''repo-00000001''
          [(''display_name'', VStr ''Gadgets'')]) = Inr None
   \<and> rows (fst (update_repository example_env 2000000 empty_table ''repo-00000001''
          [(''display_name'', VStr ''Gadgets'')])) = rows empty_table
   \<and> snd (update_repository example_env 2000000 table_widgets_deleted ''repo-00000001''
          [(''display_name'', VStr ''Gadgets'')]) = Inr None
   \<and> rows (fst (update_repository example_env 2000000 table_widgets_deleted ''repo-00000001''
          [(''display_name'', VStr ''Gadgets'')])) = rows table_widgets_deleted
   \<and> snd (update_repository_first example_env 2000000 empty_table ''repo-00000001''
          [(''display_name'', VStr ''Gadgets'')]) = Inl Item_Not_Found_Error"
  by code_simp




text \<open>
  Claim C5, as the code has it. For every repository id that is a valid key of the
  table (not empty, at most 2048 bytes): a physical deletion returns \<open>False\<close> when the
  identifier has no item and otherwise removes the item and returns \<open>True\<close>; a logical
  deletion returns \<open>False\<close> when the item is absent or already deleted and otherwise sets
  the \<open>deleted\<close> attribute and the update time and returns \<open>True\<close>; no exception is raised
  in either case, and the table is unchanged where \<open>False\<close> is returned. The update of
  the status returns \<open>False\<close> in the same way, without an exception, when the item is
  absent or deleted. For an id that is not a valid key the table rejects the request,
  and the deletion and the update of the status raise \<open>DynamoDB_Exception\<close>.
\<close>

theorem delete_returns_flag:
  "delete_repository env now t k True =
     (if \<not> key_ok k then (t, Inl DynamoDB_Exception)
      else if get_item t k = None then (t, Inr False)
      else (t\<lparr>rows := filter (\<lambda>item. \<not> has_key k item) (rows t)\<rparr>, Inr True))
   \<and> delete_repository env now t k False =
     (if \<not> key_ok k then (t, Inl DynamoDB_Exception)
      else if is_live t k
      then (store_item t k
              (apply_sets [(''deleted'', VBool True), (''updated_at'', VStr (isoformat env now))]
                 (the (get_item t k))), Inr True)
      else (t, Inr False))
   \<and> (key_ok k \<and> \<not> is_live t k
        \<longrightarrow> set_status env now_scan now t k new_status last_scan_sha = (t, Inr False))
   \<and> (\<not> key_ok k
        \<longrightarrow> set_status env now_scan now t k new_status last_scan_sha
              = (t, Inl DynamoDB_Exception))"
  using delete_physical [of env now t k] delete_logical [of env now t k]
    set_status_not_live [of t k env now_scan now new_status last_scan_sha]
    set_status_bad_key [of k env now_scan now t new_status last_scan_sha]
  by simp

theorem delete_returns_flag_witness:
  "snd (delete_repository example_env 2000000 table_widgets ''repo-00000001'' True) = Inr True
   \<and> snd (delete_repository example_env 2000000 table_widgets ''repo-00000001'' False) = Inr True
   \<and> snd (delete_repository example_env 2000000 table_widgets_deleted ''repo-00000001'' False)
       = Inr False
   \<and> snd (delete_repository example_env 2000000 empty_table ''repo-00000001'' True) = Inr False
   \<and> snd (set_status example_env 2000000 2000000 table_widgets_deleted ''repo-00000001'' PARSING
            None) = Inr False
   \<and> snd (delete_repository example_env 2000000 table_widgets [] True) = Inl DynamoDB_Exception
   \<and> snd (delete_repository example_env 2000000 table_widgets [] False) = Inl DynamoDB_Exception
   \<and> snd (set_status example_env 2000000 2000000 table_widgets [] PARSING None)
       = Inl DynamoDB_Exception"
proof -
  have "is_live table_widgets ''repo-00000001''" by code_simp
  moreover have "\<not> is_live table_widgets_deleted ''repo-00000001''" by code_simp
  moreover have "get_item table_widgets ''repo-00000001'' \<noteq> None" by code_simp
  moreover have "get_item empty_table ''repo-00000001'' = None" by code_simp
  moreover have "key_ok ''repo-00000001''" by code_simp
  moreover have "\<not> key_ok []" by code_simp
  ultimately show ?thesis
    using delete_returns_flag [of example_env 2000000 table_widgets "''repo-00000001''"]
      delete_returns_flag [of example_env 2000000 table_widgets_deleted "''repo-00000001''"
        2000000 PARSING None]
      delete_returns_flag [of example_env 2000000 empty_table "''repo-00000001''"]
      delete_returns_flag [of example_env 2000000 table_widgets "[]" 2000000 PARSING None]
    by simp
qed

text \<open>
  Claim C5 as it is stated lets no operation but the deletion turn a failure into a
  return value. The update of the status of a repository that does not exist returns
  \<open>False\<close>, where the update of the item, with the request that the method builds, has
  failed on its condition.
\<close>

theorem set_status_missing_returns_False:
  "snd (set_status example_env 2000000 2000000 empty_table ''repo-00000001'' PARSING None)
     = Inr False
   \<and> map_sum id snd
         (item_update empty_table ''repo-00000001''
            [(''#status'', '':status''), (''#updated_at'', '':updated_at'')]
            [('':status'', VStr ''PARSING''), ('':updated_at'', VStr ''1970-01-01T00:00:02''),
             ('':false'', VBool False)]
            [(''#status'', ''status''), (''#updated_at'', ''updated_at'')]
            (Some cond_live)) = Inl Condition_Check_Error
   \<and> update_request [(''status'', VStr ''PARSING''), (''updated_at'', VStr ''1970-01-01T00:00:02'')]
       = ([(''#status'', '':status''), (''#updated_at'', '':updated_at'')],
          [('':status'', VStr ''PARSING''), ('':updated_at'', VStr ''1970-01-01T00:00:02''),
           ('':false'', VBool False)],
          [(''#status'', ''status''), (''#updated_at'', ''updated_at'')])"
  by code_simp

text \<open>
  Claim C1, the code at an input where it departs from the claim. The table holds one
  repository, with another URL, which a scan reads first. The repository of the scenario
  is registered, with success; a second registration under the same URL finds no
  duplicate, since its scan reads one item only, succeeds as well, and leaves two items
  with the same URL in the table.
\<close>

theorem create_misses_duplicate:
  "snd (create_repository example_env ''repo-00000001'' 1000000 table_other GITHUB
          ''https://github.com/acme/widgets'' ''Widgets'' ''main'')
     = Inr \<lparr> r_repo_id = ''repo-00000001'', r_provider = GITHUB,
             r_remote_url = ''https://github.com/acme/widgets'', r_display_name = ''Widgets'',
             r_default_branch = ''main'', r_status = READY, r_last_scan_sha = None,
             r_last_scan_at = None, r_created_at = 1000000, r_updated_at = 1000000,
             r_deleted = False, r_metadata = Some [] \<rparr>
   \<and> snd (create_repository example_env ''repo-00000002'' 2000000 table_other_widgets GITHUB
          ''https://github.com/acme/widgets'' ''Widgets again'' ''develop'')
     = Inr \<lparr> r_repo_id = ''repo-00000002'', r_provider = GITHUB,
             r_remote_url = ''https://github.com/acme/widgets'', r_display_name = ''Widgets again'',
             r_default_branch = ''develop'', r_status = READY, r_last_scan_sha = None,
             r_last_scan_at = None, r_created_at = 2000000, r_updated_at = 2000000,
             r_deleted = False, r_metadata = Some [] \<rparr>
   \<and> remote_urls (fst (create_repository example_env ''repo-00000002'' 2000000 table_other_widgets
          GITHUB ''https://github.com/acme/widgets'' ''Widgets again'' ''develop''))
     = [VStr ''https://github.com/acme/other'', VStr ''https://github.com/acme/widgets'',
        VStr ''https://github.com/acme/widgets'']"
  by code_simp

end
